theory Spec2Isabelle
  imports Complex_Main "HOL-Library.Sublist"
begin

section \<open>JavaScript values\<close>

text \<open>
  The matcher, the mock resolver and the assertion engine work on untyped JavaScript values:
  tool arguments come out of \<^verbatim>\<open>JSON.parse\<close>, predicates and mock values out of the YAML
  parser. A number is an IEEE double; only comparisons are applied to numbers, so a double is
  represented by the rational it denotes, by one of the two infinities, or by NaN
  (\<^verbatim>\<open>-0\<close> and \<^verbatim>\<open>+0\<close> compare equal and print alike, and are one value here).
  A string is a list of characters; text outside ASCII is written as its UTF-8 bytes, so
  \<^verbatim>\<open>.length\<close> of the model agrees with JavaScript on ASCII text.
  An object is a plain object (its prototype is \<^verbatim>\<open>Object.prototype\<close>), given by the list of
  its own enumerable properties in \<^verbatim>\<open>Object.entries\<close> order; a key occurs once, and a lookup
  reads the first entry. The values of own properties are data, never functions. \<open>JFun n\<close>
  is the built-in function named \<open>n\<close>, which a value can only inherit from its prototype.
\<close>

datatype jsnum = NaN | NegInf | Fin rat | PosInf

datatype jsval =
    JUndefined
  | JNull
  | JBool bool
  | JNum jsnum
  | JStr string
  | JArr "jsval list"
  | JObj "(string \<times> jsval) list"
  | JFun string

datatype js_error = SyntaxError string | TypeError string | Error string

fun message_of :: "js_error \<Rightarrow> string" where
  "message_of (SyntaxError m) = m"
| "message_of (TypeError m) = m"
| "message_of (Error m) = m"

text \<open>The relational operators of ECMAScript on numbers: every comparison with NaN is false.\<close>

fun js_lt :: "jsnum \<Rightarrow> jsnum \<Rightarrow> bool" where
  "js_lt NaN b = False"
| "js_lt a NaN = False"
| "js_lt a NegInf = False"
| "js_lt NegInf b = True"
| "js_lt PosInf b = False"
| "js_lt a PosInf = True"
| "js_lt (Fin a) (Fin b) = (a < b)"

definition js_gt :: "jsnum \<Rightarrow> jsnum \<Rightarrow> bool" where
  "js_gt a b = js_lt b a"

definition js_ge :: "jsnum \<Rightarrow> jsnum \<Rightarrow> bool" where
  "js_ge a b = (a \<noteq> NaN \<and> b \<noteq> NaN \<and> \<not> js_lt a b)"

definition js_le :: "jsnum \<Rightarrow> jsnum \<Rightarrow> bool" where
  "js_le a b = (a \<noteq> NaN \<and> b \<noteq> NaN \<and> \<not> js_lt b a)"

definition js_eq :: "jsnum \<Rightarrow> jsnum \<Rightarrow> bool" where
  "js_eq a b = (a \<noteq> NaN \<and> a = b)"

abbreviation num_of_nat :: "nat \<Rightarrow> jsnum" where
  "num_of_nat n \<equiv> Fin (of_nat n)"

text \<open>
  The built-ins that the repository calls and does not define are taken as a parameter:
  the conversions between strings and numbers, the regular expression engine, the JSON
  parser, and the members that a value other than a plain object (an array, a string, a
  number, a boolean, a function) inherits from its prototype chain, which differ between
  versions of the language. \<^verbatim>\<open>new RegExp(p)\<close> throws a SyntaxError on an invalid pattern;
  \<^verbatim>\<open>JSON.parse\<close> throws on malformed text (\<open>None\<close>).
\<close>

record js_runtime =
  Number_of_string :: "string \<Rightarrow> jsnum"
  String_of_number :: "jsnum \<Rightarrow> string"
  RegExp_new :: "string \<Rightarrow> js_error + (string \<Rightarrow> bool)"
  JSON_parse :: "string \<Rightarrow> jsval option"
  Inherited :: "jsval \<Rightarrow> string \<Rightarrow> jsval option"

fun intercalate :: "string \<Rightarrow> string list \<Rightarrow> string" where
  "intercalate sep [] = []"
| "intercalate sep [x] = x"
| "intercalate sep (x # y # ys) = x @ sep @ intercalate sep (y # ys)"

text \<open>
  The members of \<^verbatim>\<open>Object.prototype\<close>, which every plain object inherits: the constructor
  \<^verbatim>\<open>Object\<close>, ten methods, and the accessor \<^verbatim>\<open>__proto__\<close>, which yields
  \<^verbatim>\<open>Object.prototype\<close> itself, an object without enumerable properties.
\<close>

definition Object_prototype_methods :: "string list" where
  "Object_prototype_methods =
     [''hasOwnProperty'', ''isPrototypeOf'', ''propertyIsEnumerable'', ''toLocaleString'',
      ''toString'', ''valueOf'', ''__defineGetter__'', ''__defineSetter__'',
      ''__lookupGetter__'', ''__lookupSetter__'']"

definition Object_prototype :: "string \<Rightarrow> jsval option" where
  "Object_prototype k =
     (if k = ''constructor'' then Some (JFun ''Object'')
      else if k \<in> set Object_prototype_methods then Some (JFun k)
      else if k = ''__proto__'' then Some (JObj [])
      else None)"

text \<open>
  \<^verbatim>\<open>String(v)\<close> and \<^verbatim>\<open>Number(v)\<close> convert an object to a primitive by calling its
  \<^verbatim>\<open>toString\<close>. A plain object inherits \<^verbatim>\<open>Object.prototype.toString\<close> unless it has an own
  property \<^verbatim>\<open>toString\<close>; that own property is data and cannot be called (and then neither
  an own nor the inherited \<^verbatim>\<open>valueOf\<close> yields a primitive), so the conversion throws a
  TypeError. An array is joined, which converts its elements other than \<^verbatim>\<open>null\<close> and
  \<^verbatim>\<open>undefined\<close>. \<open>convertible v\<close> says that the conversion of \<open>v\<close> completes.
\<close>

fun convertible :: "jsval \<Rightarrow> bool" where
  "convertible (JObj kvs) = (map_of kvs ''toString'' = None)"
| "convertible (JArr xs) = list_all convertible xs"
| "convertible v = True"

definition cannot_convert :: js_error where
  "cannot_convert = TypeError ''Cannot convert object to primitive value''"

text \<open>
  The string that \<^verbatim>\<open>String(v)\<close> returns when the conversion completes; a template literal
  applies the same conversion to an interpolated value.
\<close>

fun ToString :: "js_runtime \<Rightarrow> jsval \<Rightarrow> string" where
  "ToString rt JUndefined = ''undefined''"
| "ToString rt JNull = ''null''"
| "ToString rt (JBool b) = (if b then ''true'' else ''false'')"
| "ToString rt (JNum n) = String_of_number rt n"
| "ToString rt (JStr s) = s"
| "ToString rt (JArr xs) =
     intercalate '','' (map (\<lambda>x. if x = JUndefined \<or> x = JNull then [] else ToString rt x) xs)"
| "ToString rt (JObj kvs) = ''[object Object]''"
| "ToString rt (JFun n) = ''function '' @ n @ ''() { [native code] }''"

text \<open>
  The number that \<^verbatim>\<open>Number(v)\<close> returns when the conversion completes: an array, an object
  or a function is converted through its string form. A value that cannot be converted has
  no number, which NaN records here.
\<close>

fun ToNumber :: "js_runtime \<Rightarrow> jsval \<Rightarrow> jsnum" where
  "ToNumber rt JUndefined = NaN"
| "ToNumber rt JNull = Fin 0"
| "ToNumber rt (JBool b) = (if b then Fin 1 else Fin 0)"
| "ToNumber rt (JNum n) = n"
| "ToNumber rt (JStr s) = Number_of_string rt s"
| "ToNumber rt (JArr xs) =
     (if convertible (JArr xs) then Number_of_string rt (ToString rt (JArr xs)) else NaN)"
| "ToNumber rt (JObj kvs) =
     (if convertible (JObj kvs) then Number_of_string rt (ToString rt (JObj kvs)) else NaN)"
| "ToNumber rt (JFun n) = Number_of_string rt (ToString rt (JFun n))"

text \<open>\<^verbatim>\<open>String(v)\<close> and \<^verbatim>\<open>Number(v)\<close> with their throw (the message is V8's).\<close>

definition js_String :: "js_runtime \<Rightarrow> jsval \<Rightarrow> js_error + string" where
  "js_String rt v = (if convertible v then Inr (ToString rt v) else Inl cannot_convert)"

definition js_Number :: "js_runtime \<Rightarrow> jsval \<Rightarrow> js_error + jsnum" where
  "js_Number rt v = (if convertible v then Inr (ToNumber rt v) else Inl cannot_convert)"

text \<open>\<^verbatim>\<open>v ?? d\<close>\<close>

fun nullish :: "jsval \<Rightarrow> jsval \<Rightarrow> jsval" where
  "nullish JUndefined d = d"
| "nullish JNull d = d"
| "nullish v d = v"

text \<open>\<^verbatim>\<open>s.includes(needle)\<close>\<close>

fun str_includes :: "string \<Rightarrow> string \<Rightarrow> bool" where
  "str_includes [] needle = (needle = [])"
| "str_includes (c # cs) needle = (prefix needle (c # cs) \<or> str_includes cs needle)"

text \<open>\<^verbatim>\<open>typeof v === 'object' && v !== null\<close>\<close>

fun is_object :: "jsval \<Rightarrow> bool" where
  "is_object (JArr xs) = True"
| "is_object (JObj kvs) = True"
| "is_object v = False"

text \<open>
  \<^verbatim>\<open>k in v\<close> and \<^verbatim>\<open>v.k\<close> on a value that passed the test above, for the keys that the
  matchers read (\<^verbatim>\<open>equals\<close>, \<^verbatim>\<open>contains\<close>, \<^verbatim>\<open>not_contains\<close>, \<^verbatim>\<open>matches\<close>, \<^verbatim>\<open>gte\<close>,
  \<^verbatim>\<open>lte\<close>): none of them names a member of a prototype, so they are own properties or absent.
\<close>

fun has_key :: "jsval \<Rightarrow> string \<Rightarrow> bool" where
  "has_key (JObj kvs) k = (map_of kvs k \<noteq> None)"
| "has_key v k = False"

fun field :: "jsval \<Rightarrow> string \<Rightarrow> jsval" where
  "field (JObj kvs) k = (case map_of kvs k of Some v \<Rightarrow> v | None \<Rightarrow> JUndefined)"
| "field v k = JUndefined"

text \<open>
  \<^verbatim>\<open>v[k]\<close> on any value and any key. Reading a property of \<^verbatim>\<open>null\<close> or \<^verbatim>\<open>undefined\<close>
  throws a TypeError (the message is V8's). A plain object yields its own property, else the
  member of \<^verbatim>\<open>Object.prototype\<close> with that name, else \<^verbatim>\<open>undefined\<close>. An array or a string
  has its indices and its length; these and the remaining values yield what they inherit.
\<close>

definition index_of_key :: "js_runtime \<Rightarrow> nat \<Rightarrow> string \<Rightarrow> nat option" where
  "index_of_key rt n k = find (\<lambda>i. String_of_number rt (num_of_nat i) = k) [0..<n]"

definition inherited_or_undefined :: "js_runtime \<Rightarrow> jsval \<Rightarrow> string \<Rightarrow> jsval" where
  "inherited_or_undefined rt v k = (case Inherited rt v k of Some m \<Rightarrow> m | None \<Rightarrow> JUndefined)"

fun get_prop :: "js_runtime \<Rightarrow> jsval \<Rightarrow> string \<Rightarrow> js_error + jsval" where
  "get_prop rt JUndefined k =
     Inl (TypeError (''Cannot read properties of undefined (reading '' @ [CHR 0x27] @ k @ [CHR 0x27] @ '')''))"
| "get_prop rt JNull k =
     Inl (TypeError (''Cannot read properties of null (reading '' @ [CHR 0x27] @ k @ [CHR 0x27] @ '')''))"
| "get_prop rt (JObj kvs) k =
     Inr (case map_of kvs k of
            Some v \<Rightarrow> v
          | None \<Rightarrow> (case Object_prototype k of Some m \<Rightarrow> m | None \<Rightarrow> JUndefined))"
| "get_prop rt (JArr xs) k =
     Inr (case index_of_key rt (length xs) k of
            Some i \<Rightarrow> xs ! i
          | None \<Rightarrow> if k = ''length'' then JNum (num_of_nat (length xs))
                    else inherited_or_undefined rt (JArr xs) k)"
| "get_prop rt (JStr s) k =
     Inr (case index_of_key rt (length s) k of
            Some i \<Rightarrow> JStr [s ! i]
          | None \<Rightarrow> if k = ''length'' then JNum (num_of_nat (length s))
                    else inherited_or_undefined rt (JStr s) k)"
| "get_prop rt v k = Inr (inherited_or_undefined rt v k)"

text \<open>
  \<^verbatim>\<open>Object.entries(v)\<close>: it throws a TypeError on \<^verbatim>\<open>null\<close> and \<^verbatim>\<open>undefined\<close> (the message
  is V8's); an array and a string have their indices as keys; a number, a boolean and a
  function have no enumerable own property.
\<close>

fun Object_entries :: "js_runtime \<Rightarrow> jsval \<Rightarrow> js_error + (string \<times> jsval) list" where
  "Object_entries rt JUndefined = Inl (TypeError ''Cannot convert undefined or null to object'')"
| "Object_entries rt JNull = Inl (TypeError ''Cannot convert undefined or null to object'')"
| "Object_entries rt (JObj kvs) = Inr kvs"
| "Object_entries rt (JArr xs) =
     Inr (map (\<lambda>i. (String_of_number rt (num_of_nat i), xs ! i)) [0..<length xs])"
| "Object_entries rt (JStr s) =
     Inr (map (\<lambda>i. (String_of_number rt (num_of_nat i), JStr [s ! i])) [0..<length s])"
| "Object_entries rt v = Inr []"

section \<open>Outcomes (assertions.ts)\<close>

record AssertionResult =
  passed :: bool
  message :: string

definition ok :: "string \<Rightarrow> AssertionResult" where
  "ok m = \<lparr>passed = True, message = m\<rparr>"

definition fail :: "string \<Rightarrow> AssertionResult" where
  "fail m = \<lparr>passed = False, message = m\<rparr>"

definition dq :: string where
  "dq = [CHR 0x22]"

section \<open>The value matcher of the assertion engine: checkArgValue (assertions.ts)\<close>

text \<open>
  Every \<^verbatim>\<open>String(..)\<close> and \<^verbatim>\<open>Number(..)\<close> of the source is a conversion that may throw.
  A template literal that interpolates a value which the same branch has converted before
  cannot throw any more, and is written with \<open>ToString\<close>.
\<close>

definition checkRange :: "js_runtime \<Rightarrow> jsnum \<Rightarrow> jsval \<Rightarrow> string \<Rightarrow> js_error + AssertionResult" where
  "checkRange rt actualNum assertion path =
     (case (if has_key assertion ''gte''
            then (case js_Number rt (field assertion ''gte'') of
                    Inl e \<Rightarrow> Inl e
                  | Inr bound \<Rightarrow>
                      Inr [if js_ge actualNum bound
                           then ok (path @ '' >= '' @ ToString rt (field assertion ''gte''))
                           else fail (path @ '': expected >= '' @ ToString rt (field assertion ''gte'')
                                      @ '', got '' @ String_of_number rt actualNum)])
            else Inr []) of
        Inl e \<Rightarrow> Inl e
      | Inr results1 \<Rightarrow>
          (case (if has_key assertion ''lte''
                 then (case js_Number rt (field assertion ''lte'') of
                         Inl e \<Rightarrow> Inl e
                       | Inr bound \<Rightarrow>
                           Inr [if js_le actualNum bound
                                then ok (path @ '' <= '' @ ToString rt (field assertion ''lte''))
                                else fail (path @ '': expected <= '' @ ToString rt (field assertion ''lte'')
                                           @ '', got '' @ String_of_number rt actualNum)])
                 else Inr []) of
             Inl e \<Rightarrow> Inl e
           | Inr results2 \<Rightarrow>
               (let results = results1 @ results2
                in case find (\<lambda>r. \<not> passed r) results of
                     Some failed \<Rightarrow> Inr failed
                   | None \<Rightarrow> (case results of r # rs \<Rightarrow> Inr r | [] \<Rightarrow> Inr (ok (path @ '' in range''))))))"

definition checkObject :: "js_runtime \<Rightarrow> jsval \<Rightarrow> jsval \<Rightarrow> string \<Rightarrow> js_error + AssertionResult" where
  "checkObject rt actual assertion path =
     (case js_String rt (nullish actual (JStr [])) of
        Inl e \<Rightarrow> Inl e
      | Inr actualStr \<Rightarrow>
     (case js_Number rt actual of
        Inl e \<Rightarrow> Inl e
      | Inr actualNum \<Rightarrow>
         if has_key assertion ''equals'' then
           (case js_String rt actual of
              Inl e \<Rightarrow> Inl e
            | Inr actual_text \<Rightarrow>
           (case js_String rt (field assertion ''equals'') of
              Inl e \<Rightarrow> Inl e
            | Inr equals_text \<Rightarrow>
                Inr (if actual_text = equals_text
                     then ok (path @ '' equals '' @ dq @ equals_text @ dq)
                     else fail (path @ '': expected equals '' @ dq @ equals_text
                                @ dq @ '', got '' @ dq @ actual_text @ dq))))
         else if has_key assertion ''contains'' then
           (case js_String rt (field assertion ''contains'') of
              Inl e \<Rightarrow> Inl e
            | Inr needle \<Rightarrow>
                Inr (if str_includes actualStr needle
                     then ok (path @ '' contains '' @ dq @ needle @ dq)
                     else fail (path @ '': expected to contain '' @ dq @ needle @ dq
                                @ '', got '' @ dq @ actualStr @ dq)))
         else if has_key assertion ''not_contains'' then
           (case js_String rt (field assertion ''not_contains'') of
              Inl e \<Rightarrow> Inl e
            | Inr needle \<Rightarrow>
                Inr (if \<not> str_includes actualStr needle
                     then ok (path @ '' does not contain '' @ dq @ needle @ dq)
                     else fail (path @ '': expected NOT to contain '' @ dq @ needle @ dq
                                @ '', but it does'')))
         else if has_key assertion ''matches'' then
           (case js_String rt (field assertion ''matches'') of
              Inl e \<Rightarrow> Inl e
            | Inr pattern \<Rightarrow>
                (case RegExp_new rt pattern of
                   Inl e \<Rightarrow> Inl e
                 | Inr re \<Rightarrow>
                     Inr (if re actualStr
                          then ok (path @ '' matches /'' @ pattern @ ''/'')
                          else fail (path @ '': expected to match /'' @ pattern @ ''/, got ''
                                     @ dq @ actualStr @ dq))))
         else if has_key assertion ''gte'' \<or> has_key assertion ''lte'' then
           checkRange rt actualNum assertion path
         else Inr (fail (path @ '': unsupported assertion type''))))"

definition checkArgValue :: "js_runtime \<Rightarrow> jsval \<Rightarrow> jsval \<Rightarrow> string \<Rightarrow> js_error + AssertionResult" where
  "checkArgValue rt actual expected path =
     (case expected of
        JStr e \<Rightarrow>
          (case js_String rt actual of
             Inl err \<Rightarrow> Inl err
           | Inr actual_text \<Rightarrow>
               Inr (if actual_text = e
                    then ok (path @ '' = '' @ dq @ e @ dq)
                    else fail (path @ '': expected '' @ dq @ e @ dq @ '', got '' @ dq @ actual_text @ dq)))
      | JNum e \<Rightarrow>
          (case js_Number rt actual of
             Inl err \<Rightarrow> Inl err
           | Inr actual_number \<Rightarrow>
               Inr (if js_eq actual_number e
                    then ok (path @ '' = '' @ String_of_number rt e)
                    else fail (path @ '': expected '' @ String_of_number rt e @ '', got ''
                               @ ToString rt actual)))
      | JBool e \<Rightarrow>
          if actual = JBool e
          then Inr (ok (path @ '' = '' @ ToString rt (JBool e)))
          else (case js_String rt actual of
                  Inl err \<Rightarrow> Inl err
                | Inr actual_text \<Rightarrow>
                    Inr (fail (path @ '': expected '' @ ToString rt (JBool e) @ '', got '' @ actual_text)))
      | _ \<Rightarrow>
          if is_object expected then checkObject rt actual expected path
          else Inr (fail (path @ '': unsupported assertion type'')))"

section \<open>The value matcher of the mock resolver: matchesArgValue (mocks.ts)\<close>

definition matchesArgValue :: "js_runtime \<Rightarrow> jsval \<Rightarrow> jsval \<Rightarrow> js_error + bool" where
  "matchesArgValue rt actual expected =
     (if expected = JNull \<or> expected = JUndefined then Inr True
      else if (case expected of JStr e \<Rightarrow> True | JNum e \<Rightarrow> True | JBool e \<Rightarrow> True | _ \<Rightarrow> False) then
        (case js_String rt actual of
           Inl err \<Rightarrow> Inl err
         | Inr actual_text \<Rightarrow> Inr (actual_text = ToString rt expected))
      else if is_object expected then
        (let assertion = expected
         in case js_String rt (nullish actual (JStr [])) of
              Inl e \<Rightarrow> Inl e
            | Inr actualStr \<Rightarrow>
           (case js_Number rt actual of
              Inl e \<Rightarrow> Inl e
            | Inr actualNum \<Rightarrow>
               if has_key assertion ''equals'' then
                 (case js_String rt actual of
                    Inl e \<Rightarrow> Inl e
                  | Inr actual_text \<Rightarrow>
                 (case js_String rt (field assertion ''equals'') of
                    Inl e \<Rightarrow> Inl e
                  | Inr equals_text \<Rightarrow> Inr (actual_text = equals_text)))
               else if has_key assertion ''contains'' then
                 (case js_String rt (field assertion ''contains'') of
                    Inl e \<Rightarrow> Inl e
                  | Inr needle \<Rightarrow> Inr (str_includes actualStr needle))
               else if has_key assertion ''matches'' then
                 (case js_String rt (field assertion ''matches'') of
                    Inl e \<Rightarrow> Inl e
                  | Inr pattern \<Rightarrow>
                      (case RegExp_new rt pattern of
                         Inl e \<Rightarrow> Inl e
                       | Inr re \<Rightarrow> Inr (re actualStr)))
               else if has_key assertion ''not_contains'' then
                 (case js_String rt (field assertion ''not_contains'') of
                    Inl e \<Rightarrow> Inl e
                  | Inr needle \<Rightarrow> Inr (\<not> str_includes actualStr needle))
               else if has_key assertion ''gte'' \<or> has_key assertion ''lte'' then
                 (case (if has_key assertion ''gte''
                        then (case js_Number rt (field assertion ''gte'') of
                                Inl e \<Rightarrow> Inl e
                              | Inr bound \<Rightarrow> Inr (js_lt actualNum bound))
                        else Inr False) of
                    Inl e \<Rightarrow> Inl e
                  | Inr under_bound \<Rightarrow>
                      if under_bound then Inr False
                      else
                        (case (if has_key assertion ''lte''
                               then (case js_Number rt (field assertion ''lte'') of
                                       Inl e \<Rightarrow> Inl e
                                     | Inr bound \<Rightarrow> Inr (js_gt actualNum bound))
                               else Inr False) of
                           Inl e \<Rightarrow> Inl e
                         | Inr over_bound \<Rightarrow> if over_bound then Inr False else Inr True))
               else Inr False))
      else Inr False)"

section \<open>JSON.stringify\<close>

text \<open>
  \<^verbatim>\<open>JSON.stringify(v)\<close> is \<^verbatim>\<open>undefined\<close> on \<^verbatim>\<open>undefined\<close> and on a function
  (\<open>None\<close>); inside an array such a value prints as \<^verbatim>\<open>null\<close>, inside an object the
  property is left out; a number that is not finite prints as \<^verbatim>\<open>null\<close>.
\<close>

definition hex_char :: "nat \<Rightarrow> char" where
  "hex_char d = ''0123456789abcdef'' ! d"

definition escape_char :: "char \<Rightarrow> string" where
  "escape_char c =
     (if c = CHR 0x22 then [CHR 0x5C, CHR 0x22]
      else if c = CHR 0x5C then [CHR 0x5C, CHR 0x5C]
      else if c = CHR 0x08 then [CHR 0x5C, CHR ''b'']
      else if c = CHR 0x0C then [CHR 0x5C, CHR ''f'']
      else if c = CHR 0x0A then [CHR 0x5C, CHR ''n'']
      else if c = CHR 0x0D then [CHR 0x5C, CHR ''r'']
      else if c = CHR 0x09 then [CHR 0x5C, CHR ''t'']
      else if (of_char c :: nat) < 32
           then CHR 0x5C # ''u00'' @ [hex_char ((of_char c :: nat) div 16), hex_char ((of_char c :: nat) mod 16)]
      else [c])"

definition QuoteJSONString :: "string \<Rightarrow> string" where
  "QuoteJSONString s = dq @ concat (map escape_char s) @ dq"

fun is_finite :: "jsnum \<Rightarrow> bool" where
  "is_finite (Fin r) = True"
| "is_finite n = False"

fun JSON_stringify :: "js_runtime \<Rightarrow> jsval \<Rightarrow> string option" where
  "JSON_stringify rt JUndefined = None"
| "JSON_stringify rt JNull = Some ''null''"
| "JSON_stringify rt (JBool b) = Some (if b then ''true'' else ''false'')"
| "JSON_stringify rt (JNum n) = Some (if is_finite n then String_of_number rt n else ''null'')"
| "JSON_stringify rt (JStr s) = Some (QuoteJSONString s)"
| "JSON_stringify rt (JArr xs) =
     Some (''['' @ intercalate '',''
             (map (\<lambda>x. case JSON_stringify rt x of None \<Rightarrow> ''null'' | Some t \<Rightarrow> t) xs) @ '']'')"
| "JSON_stringify rt (JObj kvs) =
     Some (''{'' @ intercalate '',''
             (concat (map (\<lambda>kv. case JSON_stringify rt (snd kv) of
                                   None \<Rightarrow> []
                                 | Some t \<Rightarrow> [QuoteJSONString (fst kv) @ '':'' @ t]) kvs)) @ ''}'')"
| "JSON_stringify rt (JFun n) = None"

text \<open>A value interpolated into a template literal after \<^verbatim>\<open>JSON.stringify\<close>.\<close>

definition stringify_text :: "js_runtime \<Rightarrow> jsval \<Rightarrow> string" where
  "stringify_text rt v = (case JSON_stringify rt v of None \<Rightarrow> ''undefined'' | Some t \<Rightarrow> t)"

section \<open>Tool calls and expectations (types.ts)\<close>

record ToolCall =
  tc_id :: string
  tc_name :: string
  tc_arguments :: string

text \<open>
  A tool call as the value that \<^verbatim>\<open>JSON.stringify\<close> sees: the fields of the interface in
  their declared order.
\<close>

definition jsval_of_ToolCall :: "ToolCall \<Rightarrow> jsval" where
  "jsval_of_ToolCall c =
     JObj [(''id'', JStr (tc_id c)), (''type'', JStr ''function''),
           (''function'', JObj [(''name'', JStr (tc_name c)), (''arguments'', JStr (tc_arguments c))])]"

record NumericAssertion =
  gte :: "jsnum option"
  lte :: "jsnum option"
  equals :: "jsnum option"

record ToolCallAssertion =
  tca_name :: string
  tca_args :: "(string \<times> jsval) list option"
  tca_count :: "jsnum option"

datatype string_or_list = One string | Many "string list"

record ResponseAssertion =
  ra_contains :: "string_or_list option"
  ra_contains_any :: "string list option"
  ra_not_contains :: "string_or_list option"
  ra_matches :: "string option"
  ra_min_length :: "jsnum option"
  ra_max_length :: "jsnum option"

record GlobalAssertion =
  tool_order :: "string list option"
  total_tool_calls :: "NumericAssertion option"
  total_turns :: "NumericAssertion option"
  total_tokens :: "NumericAssertion option"

record StepExpectation =
  se_tool_calls :: "ToolCallAssertion list option"
  se_tool_calls_not :: "ToolCallAssertion list option"
  se_response :: "ResponseAssertion option"

section \<open>The assertion engine (assertions.ts)\<close>

definition emdash :: string where
  "emdash = [CHR 0xE2, CHR 0x80, CHR 0x94]"

definition arrow :: string where
  "arrow = [CHR 0xE2, CHR 0x86, CHR 0x92]"

definition checkNumeric :: "js_runtime \<Rightarrow> jsnum \<Rightarrow> NumericAssertion \<Rightarrow> string \<Rightarrow> AssertionResult list" where
  "checkNumeric rt actual assertion label =
     (case gte assertion of
        None \<Rightarrow> []
      | Some g \<Rightarrow>
          [if js_ge actual g
           then ok (label @ '' >= '' @ String_of_number rt g @ '' (got '' @ String_of_number rt actual @ '')'')
           else fail (label @ '': expected >= '' @ String_of_number rt g @ '', got '' @ String_of_number rt actual)])
     @ (case lte assertion of
          None \<Rightarrow> []
        | Some l \<Rightarrow>
            [if js_le actual l
             then ok (label @ '' <= '' @ String_of_number rt l @ '' (got '' @ String_of_number rt actual @ '')'')
             else fail (label @ '': expected <= '' @ String_of_number rt l @ '', got '' @ String_of_number rt actual)])
     @ (case equals assertion of
          None \<Rightarrow> []
        | Some e \<Rightarrow>
            [if js_eq actual e
             then ok (label @ '' = '' @ String_of_number rt e)
             else fail (label @ '': expected '' @ String_of_number rt e @ '', got '' @ String_of_number rt actual)])"

text \<open>
  The loop over \<^verbatim>\<open>Object.entries(expected.args)\<close>; it stops where \<^verbatim>\<open>args[key]\<close> or the
  matcher throws.
\<close>

fun checkArgs :: "js_runtime \<Rightarrow> jsval \<Rightarrow> (string \<times> jsval) list \<Rightarrow> AssertionResult list
                  \<Rightarrow> js_error + AssertionResult list" where
  "checkArgs rt args [] results = Inr results"
| "checkArgs rt args ((key, expectedValue) # rest) results =
     (case get_prop rt args key of
        Inl e \<Rightarrow> Inl e
      | Inr actual \<Rightarrow>
          (case checkArgValue rt actual expectedValue (''Args match: '' @ key) of
             Inl e \<Rightarrow> Inl e
           | Inr r \<Rightarrow> checkArgs rt args rest (results @ [r])))"

definition evaluateToolCallAssertion ::
    "js_runtime \<Rightarrow> ToolCallAssertion \<Rightarrow> ToolCall list \<Rightarrow> js_error + AssertionResult list" where
  "evaluateToolCallAssertion rt expected actualCalls =
     (let matching = filter (\<lambda>c. tc_name c = tca_name expected) actualCalls
      in case matching of
           [] \<Rightarrow> Inr [fail (''Expected tool call: '' @ tca_name expected @ '' '' @ emdash @ '' not called'')]
         | call # others \<Rightarrow>
             (let results =
                    [ok (''Called '' @ tca_name expected)]
                    @ (case tca_count expected of
                         None \<Rightarrow> []
                       | Some n \<Rightarrow>
                           [if js_eq (num_of_nat (length matching)) n
                            then ok (tca_name expected @ '' called '' @ String_of_number rt n @ '' time(s)'')
                            else fail (tca_name expected @ '': expected '' @ String_of_number rt n
                                       @ '' call(s), got '' @ String_of_number rt (num_of_nat (length matching)))])
              in case tca_args expected of
                   None \<Rightarrow> Inr results
                 | Some expected_args \<Rightarrow>
                     (case JSON_parse rt (tc_arguments call) of
                        None \<Rightarrow>
                          Inr (results @ [fail (tca_name expected @ '': could not parse arguments as JSON'')])
                      | Some args \<Rightarrow> checkArgs rt args expected_args results)))"

definition evaluateToolCallsNot :: "ToolCallAssertion list \<Rightarrow> ToolCall list \<Rightarrow> AssertionResult list" where
  "evaluateToolCallsNot notExpected actualCalls =
     map (\<lambda>not.
            if list_ex (\<lambda>c. tc_name c = tca_name not) actualCalls
            then fail (''Tool '' @ tca_name not @ '' should NOT have been called'')
            else ok (''Tool '' @ tca_name not @ '' was not called (correct)''))
         notExpected"

text \<open>\<^verbatim>\<open>Array.isArray(x) ? x : [x]\<close>, and the truth value of a string or an array.\<close>

fun needles_of :: "string_or_list \<Rightarrow> string list" where
  "needles_of (One s) = [s]"
| "needles_of (Many ss) = ss"

fun truthy_sl :: "string_or_list option \<Rightarrow> bool" where
  "truthy_sl None = False"
| "truthy_sl (Some (One s)) = (s \<noteq> [])"
| "truthy_sl (Some (Many ss)) = True"

fun truthy_str :: "string option \<Rightarrow> bool" where
  "truthy_str None = False"
| "truthy_str (Some s) = (s \<noteq> [])"

definition excerpt :: "string \<Rightarrow> string" where
  "excerpt actual = take 100 actual @ (if length actual > 100 then ''...'' else [])"

definition quoted_list :: "string list \<Rightarrow> string" where
  "quoted_list ns = intercalate '', '' (map (\<lambda>n. dq @ n @ dq) ns)"

definition evaluateResponseAssertion ::
    "js_runtime \<Rightarrow> ResponseAssertion \<Rightarrow> string \<Rightarrow> js_error + AssertionResult list" where
  "evaluateResponseAssertion rt expected actual =
     (let r1 = (if truthy_sl (ra_contains expected)
                then map (\<lambda>needle.
                            if str_includes actual needle
                            then ok (''Response contains '' @ dq @ needle @ dq)
                            else fail (''Response should contain '' @ dq @ needle @ dq @ '' '' @ emdash
                                       @ '' got: '' @ dq @ excerpt actual @ dq))
                         (needles_of (the (ra_contains expected)))
                else []);
          r2 = (case ra_contains_any expected of
                  None \<Rightarrow> []
                | Some ns \<Rightarrow>
                    [if list_ex (\<lambda>needle. str_includes actual needle) ns
                     then ok (''Response contains one of: '' @ quoted_list ns)
                     else fail (''Response should contain one of: '' @ quoted_list ns @ '' '' @ emdash
                                @ '' got: '' @ dq @ excerpt actual @ dq)]);
          r3 = (if truthy_sl (ra_not_contains expected)
                then map (\<lambda>needle.
                            if \<not> str_includes actual needle
                            then ok (''Response does not contain '' @ dq @ needle @ dq)
                            else fail (''Response should NOT contain '' @ dq @ needle @ dq))
                         (needles_of (the (ra_not_contains expected)))
                else []);
          r56 = (case ra_min_length expected of
                   None \<Rightarrow> []
                 | Some m \<Rightarrow>
                     [if js_ge (num_of_nat (length actual)) m
                      then ok (''Response length >= '' @ String_of_number rt m)
                      else fail (''Response too short: '' @ String_of_number rt (num_of_nat (length actual))
                                 @ '' < '' @ String_of_number rt m)])
              @ (case ra_max_length expected of
                   None \<Rightarrow> []
                 | Some m \<Rightarrow>
                     [if js_le (num_of_nat (length actual)) m
                      then ok (''Response length <= '' @ String_of_number rt m)
                      else fail (''Response too long: '' @ String_of_number rt (num_of_nat (length actual))
                                 @ '' > '' @ String_of_number rt m)])
      in if truthy_str (ra_matches expected)
         then (case RegExp_new rt (the (ra_matches expected)) of
                 Inl e \<Rightarrow> Inl e
               | Inr re \<Rightarrow>
                   Inr (r1 @ r2 @ r3
                        @ [if re actual
                           then ok (''Response matches /'' @ the (ra_matches expected) @ ''/'')
                           else fail (''Response should match /'' @ the (ra_matches expected) @ ''/ '' @ emdash
                                      @ '' got: '' @ dq @ take 100 actual @ dq)]
                        @ r56))
         else Inr (r1 @ r2 @ r3 @ r56))"

text \<open>The loop over \<^verbatim>\<open>expect.tool_calls\<close>.\<close>

fun evaluateToolCalls :: "js_runtime \<Rightarrow> ToolCallAssertion list \<Rightarrow> ToolCall list \<Rightarrow> AssertionResult list
                          \<Rightarrow> js_error + AssertionResult list" where
  "evaluateToolCalls rt [] toolCalls results = Inr results"
| "evaluateToolCalls rt (tc # rest) toolCalls results =
     (case evaluateToolCallAssertion rt tc toolCalls of
        Inl e \<Rightarrow> Inl e
      | Inr rs \<Rightarrow> evaluateToolCalls rt rest toolCalls (results @ rs))"

definition evaluateStepAssertions ::
    "js_runtime \<Rightarrow> StepExpectation option \<Rightarrow> ToolCall list \<Rightarrow> string option \<Rightarrow> js_error + AssertionResult list" where
  "evaluateStepAssertions rt expect toolCalls response =
     (case expect of
        None \<Rightarrow> Inr []
      | Some expct \<Rightarrow>
          (case (case se_tool_calls expct of
                   None \<Rightarrow> Inr []
                 | Some tcs \<Rightarrow> evaluateToolCalls rt tcs toolCalls []) of
             Inl e \<Rightarrow> Inl e
           | Inr results1 \<Rightarrow>
               (let results2 = results1 @ (case se_tool_calls_not expct of
                                             None \<Rightarrow> []
                                           | Some nots \<Rightarrow> evaluateToolCallsNot nots toolCalls)
                in if se_response expct \<noteq> None \<and> truthy_str response then
                     (case evaluateResponseAssertion rt (the (se_response expct)) (the response) of
                        Inl e \<Rightarrow> Inl e
                      | Inr rs \<Rightarrow> Inr (results2 @ rs))
                   else if se_response expct \<noteq> None \<and> \<not> truthy_str response then
                     Inr (results2 @ [fail ''Expected a text response but got none''])
                   else Inr results2)))"

text \<open>
  \<^verbatim>\<open>names.indexOf(x, from)\<close> for \<open>from \<ge> 0\<close>: the first index at or after \<open>from\<close> that
  holds \<open>x\<close>, or \<open>-1\<close>.
\<close>

function indexOf :: "string list \<Rightarrow> string \<Rightarrow> nat \<Rightarrow> int" where
  "indexOf names x from =
     (if from \<ge> length names then - 1
      else if names ! from = x then int from
      else indexOf names x (Suc from))"
  by pat_completeness auto
termination
  by (relation "measure (\<lambda>(names, x, from). length names - from)") auto

declare indexOf.simps [simp del]

text \<open>
  The loop over \<^verbatim>\<open>assert.tool_order\<close>: the outcomes it pushes and the final \<^verbatim>\<open>orderOk\<close>.
\<close>

fun tool_order_loop :: "js_runtime \<Rightarrow> string list \<Rightarrow> string list \<Rightarrow> nat \<Rightarrow> AssertionResult list \<times> bool" where
  "tool_order_loop rt calledNames [] orderIndex = ([], True)"
| "tool_order_loop rt calledNames (expected # rest) orderIndex =
     (let foundAt = indexOf calledNames expected orderIndex
      in if foundAt = - 1
         then ([fail (''Tool order: expected '' @ expected @ '' after position ''
                      @ String_of_number rt (num_of_nat orderIndex) @ '', not found'')], False)
         else tool_order_loop rt calledNames rest (nat foundAt + 1))"

definition evaluateGlobalAssertions ::
    "js_runtime \<Rightarrow> GlobalAssertion \<Rightarrow> ToolCall list \<Rightarrow> nat \<Rightarrow> nat \<Rightarrow> AssertionResult list" where
  "evaluateGlobalAssertions rt assert allToolCalls totalTurns totalTokens =
     (case tool_order assert of
        None \<Rightarrow> []
      | Some order \<Rightarrow>
          (let calledNames = map tc_name allToolCalls;
               (results, orderOk) = tool_order_loop rt calledNames order 0
           in if orderOk
              then results @ [ok (''Tool order: '' @ intercalate ('' '' @ arrow @ '' '') order)]
              else results))
     @ (case total_tool_calls assert of
          None \<Rightarrow> []
        | Some a \<Rightarrow> checkNumeric rt (num_of_nat (length allToolCalls)) a ''Total tool calls'')
     @ (case total_turns assert of
          None \<Rightarrow> []
        | Some a \<Rightarrow> checkNumeric rt (num_of_nat totalTurns) a ''Total turns'')
     @ (case total_tokens assert of
          None \<Rightarrow> []
        | Some a \<Rightarrow> checkNumeric rt (num_of_nat totalTokens) a ''Total tokens'')"


section \<open>The mock resolver (mocks.ts)\<close>

text \<open>
  A mock table is a plain object that maps a tool name to a mock definition object or to any
  other value, which is then the response itself. \<open>Def\<close> is an object read through the
  fields of \<^verbatim>\<open>MockDefinition\<close> (an absent field is \<open>None\<close>; \<^verbatim>\<open>default\<close> holds the value of
  \<^verbatim>\<open>default.return\<close>); \<open>Raw\<close> is any value that is not such an object. The \<^verbatim>\<open>when\<close> of
  a condition is the value that the parser took from the test file unchecked, and so is any
  value, \<^verbatim>\<open>null\<close> included.
\<close>

record MockCondition =
  cond_when :: jsval
  cond_return :: jsval

record MockDefinition =
  mock_return :: "jsval option"
  mock_error :: "string option"
  mock_conditions :: "MockCondition list option"
  mock_default :: "jsval option"

datatype mock_entry = Def MockDefinition | Raw jsval

type_synonym StepMock = "(string \<times> mock_entry) list"

definition jsval_of_MockCondition :: "MockCondition \<Rightarrow> jsval" where
  "jsval_of_MockCondition c = JObj [(''when'', cond_when c), (''return'', cond_return c)]"

definition jsval_of_MockDefinition :: "MockDefinition \<Rightarrow> jsval" where
  "jsval_of_MockDefinition m =
     JObj ((case mock_return m of None \<Rightarrow> [] | Some v \<Rightarrow> [(''return'', v)])
           @ (case mock_error m of None \<Rightarrow> [] | Some e \<Rightarrow> [(''error'', JStr e)])
           @ (case mock_conditions m of
                None \<Rightarrow> []
              | Some cs \<Rightarrow> [(''conditions'', JArr (map jsval_of_MockCondition cs))])
           @ (case mock_default m of None \<Rightarrow> [] | Some d \<Rightarrow> [(''default'', JObj [(''return'', d)])]))"

text \<open>The loop of \<^verbatim>\<open>argsMatchCondition\<close> over the entries of the condition.\<close>

fun entries_loop :: "js_runtime \<Rightarrow> jsval \<Rightarrow> (string \<times> jsval) list \<Rightarrow> js_error + bool" where
  "entries_loop rt toolCallArgs [] = Inr True"
| "entries_loop rt toolCallArgs ((key, expected) # rest) =
     (case get_prop rt toolCallArgs key of
        Inl e \<Rightarrow> Inl e
      | Inr actual \<Rightarrow>
          (case matchesArgValue rt actual expected of
             Inl e \<Rightarrow> Inl e
           | Inr m \<Rightarrow> if \<not> m then Inr False else entries_loop rt toolCallArgs rest))"

definition argsMatchCondition :: "js_runtime \<Rightarrow> jsval \<Rightarrow> jsval \<Rightarrow> js_error + bool" where
  "argsMatchCondition rt toolCallArgs condition =
     (case Object_entries rt condition of
        Inl e \<Rightarrow> Inl e
      | Inr entries \<Rightarrow> entries_loop rt toolCallArgs entries)"

text \<open>
  The loop over \<^verbatim>\<open>mock.conditions\<close>: the \<^verbatim>\<open>return\<close> of the condition at which the loop
  returns, or \<open>None\<close> when it runs to its end.
\<close>

fun conditions_loop :: "js_runtime \<Rightarrow> jsval \<Rightarrow> MockCondition list \<Rightarrow> js_error + jsval option" where
  "conditions_loop rt args [] = Inr None"
| "conditions_loop rt args (condition # rest) =
     (case argsMatchCondition rt args (cond_when condition) of
        Inl e \<Rightarrow> Inl e
      | Inr m \<Rightarrow> if m then Inr (Some (cond_return condition)) else conditions_loop rt args rest)"

definition resolveMockDefinition :: "js_runtime \<Rightarrow> MockDefinition \<Rightarrow> jsval \<Rightarrow> js_error + jsval" where
  "resolveMockDefinition rt mock args =
     (if truthy_str (mock_error mock) then Inr (JObj [(''error'', JStr (the (mock_error mock)))])
      else if mock_conditions mock \<noteq> None \<and> the (mock_conditions mock) \<noteq> [] then
        (case conditions_loop rt args (the (mock_conditions mock)) of
           Inl e \<Rightarrow> Inl e
         | Inr (Some v) \<Rightarrow> Inr v
         | Inr None \<Rightarrow>
             (case mock_default mock of
                Some d \<Rightarrow> Inr d
              | None \<Rightarrow>
                  Inr (JObj [(''error'',
                              JStr (''No matching mock condition for args: '' @ stringify_text rt args))])))
      else (case mock_return mock of
              Some v \<Rightarrow> Inr v
            | None \<Rightarrow> Inr JNull))"

text \<open>
  The body of the loop of \<^verbatim>\<open>resolveMocks\<close> for one call: the content stored under the call's
  id (\<open>None\<close> when \<^verbatim>\<open>JSON.stringify\<close> yields \<^verbatim>\<open>undefined\<close>). \<^verbatim>\<open>toolName in stepMock\<close>
  and \<^verbatim>\<open>stepMock[toolName]\<close> find an entry of the table or else a member of
  \<^verbatim>\<open>Object.prototype\<close>; such a member has none of the keys \<^verbatim>\<open>return\<close>, \<^verbatim>\<open>error\<close> and
  \<^verbatim>\<open>conditions\<close> and is the response itself.
\<close>

definition parse_args :: "js_runtime \<Rightarrow> string \<Rightarrow> jsval" where
  "parse_args rt text = (case JSON_parse rt text of Some v \<Rightarrow> v | None \<Rightarrow> JObj [])"

definition encode_content :: "js_runtime \<Rightarrow> jsval \<Rightarrow> string option" where
  "encode_content rt response = (case response of JStr s \<Rightarrow> Some s | _ \<Rightarrow> JSON_stringify rt response)"

definition resolve_response :: "js_runtime \<Rightarrow> StepMock option \<Rightarrow> string \<Rightarrow> jsval \<Rightarrow> js_error + jsval" where
  "resolve_response rt stepMock toolName args =
     (case stepMock of
        None \<Rightarrow> Inr (JObj [(''result'', JStr (''Mock not defined for tool: '' @ toolName))])
      | Some table \<Rightarrow>
          (case map_of table toolName of
             Some (Def mockDef) \<Rightarrow>
               if mock_return mockDef \<noteq> None \<or> mock_error mockDef \<noteq> None \<or> mock_conditions mockDef \<noteq> None
               then resolveMockDefinition rt mockDef args
               else Inr (jsval_of_MockDefinition mockDef)
           | Some (Raw v) \<Rightarrow> Inr v
           | None \<Rightarrow>
               (case Object_prototype toolName of
                  Some inherited \<Rightarrow> Inr inherited
                | None \<Rightarrow> Inr (JObj [(''result'', JStr (''Mock not defined for tool: '' @ toolName))]))))"

definition resolve_call :: "js_runtime \<Rightarrow> StepMock option \<Rightarrow> ToolCall \<Rightarrow> js_error + string option" where
  "resolve_call rt stepMock call =
     (case resolve_response rt stepMock (tc_name call) (parse_args rt (tc_arguments call)) of
        Inl e \<Rightarrow> Inl e
      | Inr response \<Rightarrow> Inr (encode_content rt response))"

fun resolveMocks_loop :: "js_runtime \<Rightarrow> StepMock option \<Rightarrow> ToolCall list \<Rightarrow> (string \<rightharpoonup> string option)
                          \<Rightarrow> js_error + (string \<rightharpoonup> string option)" where
  "resolveMocks_loop rt stepMock [] results = Inr results"
| "resolveMocks_loop rt stepMock (call # rest) results =
     (case resolve_call rt stepMock call of
        Inl e \<Rightarrow> Inl e
      | Inr content \<Rightarrow> resolveMocks_loop rt stepMock rest (results(tc_id call \<mapsto> content)))"

definition resolveMocks :: "js_runtime \<Rightarrow> ToolCall list \<Rightarrow> StepMock option
                            \<Rightarrow> js_error + (string \<rightharpoonup> string option)" where
  "resolveMocks rt toolCalls stepMock = resolveMocks_loop rt stepMock toolCalls Map.empty"

section \<open>The conversation executor (executor.ts)\<close>

text \<open>
  The two external boundaries are parameters: \<^verbatim>\<open>callLLM\<close> is given the transcript (the tool
  schemas, the provider and the timeout do not change during a test) and answers with a
  completion or throws; \<^verbatim>\<open>fetchPrompt\<close> resolves a remote instruction text or throws. A
  timeout is a throw of the boundary. A boundary acts on the world outside the program: a
  call takes the state \<open>'w\<close> of that world and yields, with its answer, the state after the
  call. The executor can only pass this state on, so what a boundary keeps there (the
  replies still to come, the calls made so far) changes with every call and with nothing
  else. Progress events, the wall-clock duration and the floating-point cost estimate of
  the result are not modelled; \<^verbatim>\<open>max_turns\<close> and the token counts reported by the boundary
  are natural numbers. Fields carry a prefix where two interfaces of \<^verbatim>\<open>types.ts\<close> share a
  name.
\<close>

datatype role = System | User | Assistant | Tool

record ChatMessage =
  role :: role
  content :: "string option"
  tool_calls :: "ToolCall list option"
  tool_call_id :: "string option"

record Usage =
  prompt_tokens :: nat
  completion_tokens :: nat

record ChatCompletionResponse =
  choices :: "ChatMessage list"
  usage :: "Usage option"

record PromptmanSource =
  slug :: string
  stage :: "string option"
  variables :: "(string \<times> string) list option"

datatype SystemPromptSource = Literal string | Promptman PromptmanSource

record TestStep =
  step_user :: "string option"
  step_expect :: "StepExpectation option"
  step_mock :: "StepMock option"
  step_assert :: "GlobalAssertion option"

record TestDefinition =
  test_name :: string
  system_prompt :: SystemPromptSource
  test_steps :: "TestStep list"

record Config =
  max_turns :: nat
  promptman_configured :: bool

type_synonym reply = "js_error + ChatCompletionResponse"

type_synonym 'w model_boundary = "ChatMessage list \<Rightarrow> 'w \<Rightarrow> reply \<times> 'w"

record 'w boundaries =
  callLLM :: "'w model_boundary"
  fetchPrompt :: "PromptmanSource \<Rightarrow> 'w \<Rightarrow> (js_error + string) \<times> 'w"

record StepResult =
  stepIndex :: nat
  userMessage :: "string option"
  assertions :: "AssertionResult list"
  toolCalls :: "ToolCall list"
  assistantResponse :: "string option"
  step_passed :: bool

record TestResult =
  result_name :: string
  result_file :: string
  test_passed :: bool
  steps :: "StepResult list"
  globalAssertions :: "AssertionResult list"
  totalTokens :: nat
  error :: "string option"

text \<open>The variables of \<^verbatim>\<open>executeTest\<close> that outlive a step.\<close>

record exec_state =
  messages :: "ChatMessage list"
  allToolCalls :: "ToolCall list"
  stepResults :: "StepResult list"
  totalInputTokens :: nat
  totalOutputTokens :: nat
  totalTurns :: nat

definition estimateTokens :: "string \<Rightarrow> nat" where
  "estimateTokens text = (if text = [] then 0 else (length text + 3) div 4)"

definition resolveSystemPrompt ::
    "'w boundaries \<Rightarrow> Config \<Rightarrow> SystemPromptSource \<Rightarrow> 'w \<Rightarrow> (js_error + string) \<times> 'w" where
  "resolveSystemPrompt b config source w =
     (case source of
        Literal s \<Rightarrow> (Inr s, w)
      | Promptman p \<Rightarrow>
          if \<not> promptman_configured config
          then (Inl (Error ''Promptman config required to fetch remote prompts. Set PROMPTMAN_API_KEY.''), w)
          else fetchPrompt b p w)"

definition has_tool_calls :: "ChatMessage \<Rightarrow> bool" where
  "has_tool_calls msg = (case tool_calls msg of None \<Rightarrow> False | Some tcs \<Rightarrow> tcs \<noteq> [])"

definition track_tokens :: "ChatCompletionResponse \<Rightarrow> exec_state \<Rightarrow> exec_state" where
  "track_tokens completion st =
     (case usage completion of
        Some u \<Rightarrow>
          st\<lparr>totalInputTokens := totalInputTokens st + prompt_tokens u,
             totalOutputTokens := totalOutputTokens st + completion_tokens u\<rparr>
      | None \<Rightarrow>
          st\<lparr>totalInputTokens := totalInputTokens st
               + estimateTokens (intercalate '' ''
                   (map (\<lambda>m. case content m of None \<Rightarrow> [] | Some c \<Rightarrow> c) (messages st)))\<rparr>)"

definition record_tool_calls :: "js_runtime \<Rightarrow> ChatCompletionResponse \<Rightarrow> ChatMessage \<Rightarrow> exec_state \<Rightarrow> exec_state" where
  "record_tool_calls rt completion msg st =
     st\<lparr>messages := messages st
           @ [\<lparr>role = Assistant, content = content msg, tool_calls = tool_calls msg, tool_call_id = None\<rparr>],
        allToolCalls := allToolCalls st @ the (tool_calls msg),
        totalOutputTokens := totalOutputTokens st
           + (if usage completion \<noteq> None
              then estimateTokens (stringify_text rt (JArr (map jsval_of_ToolCall (the (tool_calls msg)))))
              else 0)\<rparr>"

definition inject_mocks :: "js_runtime \<Rightarrow> (string \<rightharpoonup> string option) \<Rightarrow> ToolCall list \<Rightarrow> exec_state \<Rightarrow> exec_state" where
  "inject_mocks rt mockResults tcs st =
     st\<lparr>messages := messages st
           @ map (\<lambda>toolCall.
                    \<lparr>role = Tool,
                     content = Some (case mockResults (tc_id toolCall) of
                                       Some (Some mockContent) \<Rightarrow> mockContent
                                     | _ \<Rightarrow> stringify_text rt (JObj [(''result'', JStr ''ok'')])),
                     tool_calls = None, tool_call_id = Some (tc_id toolCall)\<rparr>)
                 tcs\<rparr>"

definition record_reply :: "ChatCompletionResponse \<Rightarrow> string \<Rightarrow> exec_state \<Rightarrow> exec_state" where
  "record_reply completion text st =
     st\<lparr>messages := messages st
           @ [\<lparr>role = Assistant, content = Some text, tool_calls = None, tool_call_id = None\<rparr>],
        totalOutputTokens := totalOutputTokens st
           + (if usage completion = None then estimateTokens text else 0)\<rparr>"

text \<open>
  The multi-turn loop of one step. A throw leaves the loop with the error and the state
  reached; otherwise the loop ends with the state, the step's tool calls and its reply.
  Either way it hands back the world as the last call of the boundary left it.
\<close>

function turn_loop ::
    "js_runtime \<Rightarrow> 'w model_boundary \<Rightarrow> nat \<Rightarrow> StepMock option \<Rightarrow> exec_state \<Rightarrow> ToolCall list \<Rightarrow> nat \<Rightarrow> 'w
     \<Rightarrow> ((js_error \<times> exec_state) + (exec_state \<times> ToolCall list \<times> string option)) \<times> 'w" where
  "turn_loop rt llm maxTurns mock st stepToolCalls turnCount w =
     (if turnCount < maxTurns then
        (case llm (messages st) w of
           (Inl e, w') \<Rightarrow> (Inl (e, st\<lparr>totalTurns := totalTurns st + 1\<rparr>), w')
         | (Inr completion, w') \<Rightarrow>
             (case choices completion of
                [] \<Rightarrow>
                  (Inl (Error ''No response from LLM'',
                        track_tokens completion (st\<lparr>totalTurns := totalTurns st + 1\<rparr>)), w')
              | msg # others \<Rightarrow>
                  if has_tool_calls msg then
                    (case resolveMocks rt (the (tool_calls msg)) mock of
                       Inl e \<Rightarrow>
                         (Inl (e, record_tool_calls rt completion msg
                                    (track_tokens completion (st\<lparr>totalTurns := totalTurns st + 1\<rparr>))), w')
                     | Inr mockResults \<Rightarrow>
                         turn_loop rt llm maxTurns mock
                           (inject_mocks rt mockResults (the (tool_calls msg))
                              (record_tool_calls rt completion msg
                                 (track_tokens completion (st\<lparr>totalTurns := totalTurns st + 1\<rparr>))))
                           (stepToolCalls @ the (tool_calls msg))
                           (turnCount + 1)
                           w')
                  else if truthy_str (content msg) then
                    (Inr (record_reply completion (the (content msg))
                            (track_tokens completion (st\<lparr>totalTurns := totalTurns st + 1\<rparr>)),
                          stepToolCalls, content msg), w')
                  else
                    (Inr (track_tokens completion (st\<lparr>totalTurns := totalTurns st + 1\<rparr>),
                          stepToolCalls, None), w')))
      else (Inr (st, stepToolCalls, None), w))"
  by pat_completeness auto
termination
  by (relation "measure (\<lambda>(rt, llm, maxTurns, mock, st, stepToolCalls, turnCount, w). maxTurns - turnCount)") auto

declare turn_loop.simps [simp del]

definition is_global_step :: "TestStep \<Rightarrow> bool" where
  "is_global_step step = (step_assert step \<noteq> None \<and> \<not> truthy_str (step_user step) \<and> step_expect step = None)"

text \<open>\<^verbatim>\<open>if (step.user) messages.push({ role: 'user', content: step.user })\<close>\<close>

definition push_user :: "TestStep \<Rightarrow> exec_state \<Rightarrow> exec_state" where
  "push_user step st =
     (if truthy_str (step_user step)
      then st\<lparr>messages := messages st
             @ [\<lparr>role = User, content = step_user step, tool_calls = None, tool_call_id = None\<rparr>]\<rparr>
      else st)"

definition run_step ::
    "js_runtime \<Rightarrow> 'w model_boundary \<Rightarrow> nat \<Rightarrow> nat \<Rightarrow> TestStep \<Rightarrow> exec_state \<Rightarrow> 'w
     \<Rightarrow> ((js_error \<times> exec_state) + exec_state) \<times> 'w" where
  "run_step rt llm maxTurns stepIdx step st w =
     (if is_global_step step then (Inr st, w)
      else
        (case turn_loop rt llm maxTurns (step_mock step) (push_user step st) [] 0 w of
           (Inl err, w') \<Rightarrow> (Inl err, w')
         | (Inr (st1, stepToolCalls, response), w') \<Rightarrow>
             (case evaluateStepAssertions rt (step_expect step) stepToolCalls response of
                Inl e \<Rightarrow> (Inl (e, st1), w')
              | Inr results \<Rightarrow>
                  (Inr (st1\<lparr>stepResults := stepResults st1
                             @ [\<lparr>stepIndex = stepIdx, userMessage = step_user step, assertions = results,
                                 toolCalls = stepToolCalls, assistantResponse = response,
                                 step_passed = list_all passed results\<rparr>]\<rparr>), w'))))"

fun run_steps ::
    "js_runtime \<Rightarrow> 'w model_boundary \<Rightarrow> nat \<Rightarrow> nat \<Rightarrow> TestStep list \<Rightarrow> exec_state \<Rightarrow> 'w
     \<Rightarrow> ((js_error \<times> exec_state) + exec_state) \<times> 'w" where
  "run_steps rt llm maxTurns stepIdx [] st w = (Inr st, w)"
| "run_steps rt llm maxTurns stepIdx (step # rest) st w =
     (case run_step rt llm maxTurns stepIdx step st w of
        (Inl err, w') \<Rightarrow> (Inl err, w')
      | (Inr st', w') \<Rightarrow> run_steps rt llm maxTurns (Suc stepIdx) rest st' w')"

definition initial_state :: exec_state where
  "initial_state = \<lparr>messages = [], allToolCalls = [], stepResults = [],
                    totalInputTokens = 0, totalOutputTokens = 0, totalTurns = 0\<rparr>"

definition global_results :: "js_runtime \<Rightarrow> TestStep list \<Rightarrow> exec_state \<Rightarrow> AssertionResult list" where
  "global_results rt sts st =
     concat (map (\<lambda>step. case step_assert step of
                            None \<Rightarrow> []
                          | Some a \<Rightarrow>
                              evaluateGlobalAssertions rt a (allToolCalls st) (totalTurns st)
                                (totalInputTokens st + totalOutputTokens st))
                 sts)"

text \<open>The \<^verbatim>\<open>catch\<close> block of \<^verbatim>\<open>executeTest\<close>.\<close>

definition error_result :: "TestDefinition \<Rightarrow> string \<Rightarrow> exec_state \<Rightarrow> js_error \<Rightarrow> TestResult" where
  "error_result test filePath st e =
     \<lparr>result_name = test_name test, result_file = filePath, test_passed = False,
      steps = stepResults st, globalAssertions = [],
      totalTokens = totalInputTokens st + totalOutputTokens st,
      error = Some (message_of e)\<rparr>"

definition executeTest ::
    "js_runtime \<Rightarrow> 'w boundaries \<Rightarrow> TestDefinition \<Rightarrow> Config \<Rightarrow> string \<Rightarrow> 'w \<Rightarrow> TestResult \<times> 'w" where
  "executeTest rt b test config filePath w =
     (case resolveSystemPrompt b config (system_prompt test) w of
        (Inl e, w1) \<Rightarrow> (error_result test filePath initial_state e, w1)
      | (Inr systemPrompt, w1) \<Rightarrow>
          (case run_steps rt (callLLM b) (max_turns config) 0 (test_steps test)
                  (initial_state\<lparr>messages :=
                     [\<lparr>role = System, content = Some systemPrompt, tool_calls = None, tool_call_id = None\<rparr>]\<rparr>) w1 of
             (Inl (e, st), w2) \<Rightarrow> (error_result test filePath st e, w2)
           | (Inr st, w2) \<Rightarrow>
               (\<lparr>result_name = test_name test, result_file = filePath,
                 test_passed = (list_all step_passed (stepResults st)
                                \<and> list_all passed (global_results rt (test_steps test) st)),
                 steps = stepResults st,
                 globalAssertions = global_results rt (test_steps test) st,
                 totalTokens = totalInputTokens st + totalOutputTokens st,
                 error = None\<rparr>, w2)))"

section \<open>A runtime for closed evaluations\<close>

text \<open>
  Theorems below hold for every runtime. Closed evaluations need one; \<open>js\<close> is ECMAScript
  on a fragment that suffices for them:
  \<^item> numbers print in decimal when they are integers (as ECMAScript does below \<open>10\<^sup>2\<^sup>1\<close>),
    and decimal integer literals are read back; non-numeric text is NaN;
  \<^item> a pattern without syntax characters compiles to a substring search, and the pattern
    \<^verbatim>\<open>(\<close> is rejected (an unterminated group);
  \<^item> the JSON parser knows the texts \<^verbatim>\<open>{}\<close>, \<^verbatim>\<open>null\<close>, \<^verbatim>\<open>{"q":"rome"}\<close> and
    \<^verbatim>\<open>{"q":{"toString":1}}\<close> and rejects malformed text;
  \<^item> a value other than a plain object inherits its constructor and the members of
    \<^verbatim>\<open>Object.prototype\<close>.
  Outside the fragment (fractions, exponents, patterns with operators, other JSON texts,
  the members of the prototypes of arrays, strings, numbers, booleans and functions)
  \<open>js\<close> is a placeholder, and no closed evaluation goes there.
\<close>

definition digit_char :: "nat \<Rightarrow> char" where
  "digit_char d = ''0123456789'' ! d"

function show_nat :: "nat \<Rightarrow> string" where
  "show_nat n = (if n < 10 then [digit_char n] else show_nat (n div 10) @ [digit_char (n mod 10)])"
  by pat_completeness auto
termination
  by (relation "measure id") auto

declare show_nat.simps [simp del]

definition js_String_of_number :: "jsnum \<Rightarrow> string" where
  "js_String_of_number n =
     (case n of
        NaN \<Rightarrow> ''NaN''
      | PosInf \<Rightarrow> ''Infinity''
      | NegInf \<Rightarrow> ''-Infinity''
      | Fin r \<Rightarrow>
          if of_int \<lfloor>r\<rfloor> = r
          then (if r < 0 then ''-'' @ show_nat (nat (- \<lfloor>r\<rfloor>)) else show_nat (nat \<lfloor>r\<rfloor>))
          else ''?'')"

definition is_digit :: "char \<Rightarrow> bool" where
  "is_digit c = (48 \<le> (of_char c :: nat) \<and> (of_char c :: nat) \<le> 57)"

definition nat_of_digits :: "string \<Rightarrow> nat" where
  "nat_of_digits ds = foldl (\<lambda>acc c. 10 * acc + (of_char c - 48)) 0 ds"

definition js_Number_of_string :: "string \<Rightarrow> jsnum" where
  "js_Number_of_string s =
     (case s of
        [] \<Rightarrow> Fin 0
      | c # cs \<Rightarrow>
          if list_all is_digit s then Fin (of_nat (nat_of_digits s))
          else if c = CHR ''-'' \<and> cs \<noteq> [] \<and> list_all is_digit cs then Fin (- of_nat (nat_of_digits cs))
          else if c = CHR ''+'' \<and> cs \<noteq> [] \<and> list_all is_digit cs then Fin (of_nat (nat_of_digits cs))
          else NaN)"

definition syntax_chars :: string where
  "syntax_chars = CHR 0x5C # ''^$.*+?()[]{}|/''"

definition js_RegExp_new :: "string \<Rightarrow> js_error + (string \<Rightarrow> bool)" where
  "js_RegExp_new p =
     (if list_all (\<lambda>c. c \<notin> set syntax_chars) p then Inr (\<lambda>s. str_includes s p)
      else if p = ''('' then Inl (SyntaxError ''Invalid regular expression: /(/: Unterminated group'')
      else Inl (SyntaxError (''Invalid regular expression: /'' @ p @ ''/'')))"

definition js_JSON_parse :: "string \<Rightarrow> jsval option" where
  "js_JSON_parse s =
     (if s = ''{}'' then Some (JObj [])
      else if s = ''null'' then Some JNull
      else if s = ''{'' @ dq @ ''q'' @ dq @ '':'' @ dq @ ''rome'' @ dq @ ''}''
      then Some (JObj [(''q'', JStr ''rome'')])
      else if s = ''{'' @ dq @ ''q'' @ dq @ '':{'' @ dq @ ''toString'' @ dq @ '':1}}''
      then Some (JObj [(''q'', JObj [(''toString'', JNum (Fin 1))])])
      else None)"

definition js_Inherited :: "jsval \<Rightarrow> string \<Rightarrow> jsval option" where
  "js_Inherited v k =
     (if k = ''constructor''
      then (case v of
              JArr xs \<Rightarrow> Some (JFun ''Array'')
            | JStr s \<Rightarrow> Some (JFun ''String'')
            | JNum n \<Rightarrow> Some (JFun ''Number'')
            | JBool b \<Rightarrow> Some (JFun ''Boolean'')
            | JFun n \<Rightarrow> Some (JFun ''Function'')
            | _ \<Rightarrow> None)
      else Object_prototype k)"

definition js :: js_runtime where
  "js = \<lparr>Number_of_string = js_Number_of_string, String_of_number = js_String_of_number,
         RegExp_new = js_RegExp_new, JSON_parse = js_JSON_parse, Inherited = js_Inherited\<rparr>"

lemmas js_simps = js_def js_RegExp_new_def js_String_of_number_def js_Number_of_string_def
  js_JSON_parse_def syntax_chars_def is_digit_def nat_of_digits_def digit_char_def dq_def

section \<open>Notions of the specification\<close>

subsection \<open>Predicate categories\<close>

text \<open>
  The categories of a structured predicate as the specification names them, the keys that
  put a predicate object into a category, and the part of a predicate object that belongs
  to one category.
\<close>

datatype category = CatEquals | CatContains | CatNotContains | CatMatches | CatRange

fun category_keys :: "category \<Rightarrow> string list" where
  "category_keys CatEquals = [''equals'']"
| "category_keys CatContains = [''contains'']"
| "category_keys CatNotContains = [''not_contains'']"
| "category_keys CatMatches = [''matches'']"
| "category_keys CatRange = [''gte'', ''lte'']"

definition has_category :: "(string \<times> jsval) list \<Rightarrow> category \<Rightarrow> bool" where
  "has_category kvs c = list_ex (\<lambda>k. map_of kvs k \<noteq> None) (category_keys c)"

definition only_category :: "(string \<times> jsval) list \<Rightarrow> category \<Rightarrow> (string \<times> jsval) list" where
  "only_category kvs c = filter (\<lambda>kv. fst kv \<in> set (category_keys c)) kvs"

definition assertion_precedence :: "category list" where
  "assertion_precedence = [CatEquals, CatContains, CatNotContains, CatMatches, CatRange]"

definition passes :: "js_error + AssertionResult \<Rightarrow> bool" where
  "passes r = (case r of Inl e \<Rightarrow> False | Inr a \<Rightarrow> passed a)"

text \<open>
  The predicates on which the two matchers are compared: a Range check in which neither
  bound comparison involves NaN, and the predicates on which both matchers give one verdict.
\<close>

definition no_NaN_in_range :: "js_runtime \<Rightarrow> jsval \<Rightarrow> jsval \<Rightarrow> bool" where
  "no_NaN_in_range rt actual assertion =
     ((has_key assertion ''gte'' \<longrightarrow>
         ToNumber rt actual \<noteq> NaN \<and> ToNumber rt (field assertion ''gte'') \<noteq> NaN)
      \<and> (has_key assertion ''lte'' \<longrightarrow>
         ToNumber rt actual \<noteq> NaN \<and> ToNumber rt (field assertion ''lte'') \<noteq> NaN))"

definition matchers_agree_on :: "js_runtime \<Rightarrow> jsval \<Rightarrow> jsval \<Rightarrow> bool" where
  "matchers_agree_on rt actual expected =
     (case expected of
        JStr s \<Rightarrow> True
      | JArr xs \<Rightarrow> True
      | JObj kvs \<Rightarrow>
          has_key expected ''equals'' \<or> has_key expected ''contains''
          \<or> (if has_key expected ''not_contains'' then \<not> has_key expected ''matches''
              else has_key expected ''matches'' \<or> no_NaN_in_range rt actual expected)
      | _ \<Rightarrow> False)"

subsection \<open>Mock rules\<close>



definition key_verdict :: "js_runtime \<Rightarrow> jsval \<Rightarrow> string \<times> jsval \<Rightarrow> js_error + bool" where
  "key_verdict rt args kv =
     (case get_prop rt args (fst kv) of
        Inl e \<Rightarrow> Inl e
      | Inr actual \<Rightarrow> matchesArgValue rt actual (snd kv))"

definition first_other_than :: "'a \<Rightarrow> 'a list \<Rightarrow> 'a" where
  "first_other_than x xs = (case find (\<lambda>v. v \<noteq> x) xs of None \<Rightarrow> x | Some v \<Rightarrow> v)"

definition map_verdict :: "js_runtime \<Rightarrow> jsval \<Rightarrow> jsval \<Rightarrow> js_error + bool" where
  "map_verdict rt args predicate_map =
     (case Object_entries rt predicate_map of
        Inl e \<Rightarrow> Inl e
      | Inr entries \<Rightarrow> first_other_than (Inr True) (map (key_verdict rt args) entries))"









subsection \<open>The ordering scan and the tool-call outcomes\<close>

text \<open>
  The whole-test ordering check in the specification's words: for each expected name in
  order, find the first invocation with that name at or after the scan cursor and move the
  cursor past it; a name that is not found ends the scan and is reported with the cursor.
\<close>

datatype scan = Found | Unmet string nat

fun greedy_scan :: "string list \<Rightarrow> string list \<Rightarrow> nat \<Rightarrow> scan" where
  "greedy_scan names [] cursor = Found"
| "greedy_scan names (e # es) cursor =
     (case find (\<lambda>i. names ! i = e) [cursor..<length names] of
        None \<Rightarrow> Unmet e cursor
      | Some i \<Rightarrow> greedy_scan names es (Suc i))"

definition order_outcome :: "js_runtime \<Rightarrow> string list \<Rightarrow> scan \<Rightarrow> AssertionResult" where
  "order_outcome rt order s =
     (case s of
        Found \<Rightarrow> ok (''Tool order: '' @ intercalate ('' '' @ arrow @ '' '') order)
      | Unmet e cursor \<Rightarrow>
          fail (''Tool order: expected '' @ e @ '' after position ''
                @ String_of_number rt (num_of_nat cursor) @ '', not found''))"

definition named_call :: "string \<Rightarrow> ToolCall" where
  "named_call n = \<lparr>tc_id = ''tc_'' @ n, tc_name = n, tc_arguments = ''{}''\<rparr>"

definition only_tool_order :: "string list \<Rightarrow> GlobalAssertion" where
  "only_tool_order order =
     \<lparr>tool_order = Some order, total_tool_calls = None, total_turns = None, total_tokens = None\<rparr>"

text \<open>
  The outcomes of a step expectation that concern tool calls (\<^verbatim>\<open>tool_calls\<close> and
  \<^verbatim>\<open>tool_calls_not\<close>), apart from the response; and an expectation that checks no
  arguments of a tool call.
\<close>

definition tool_outcomes :: "js_runtime \<Rightarrow> StepExpectation \<Rightarrow> ToolCall list \<Rightarrow> js_error + AssertionResult list" where
  "tool_outcomes rt e calls =
     (case (case se_tool_calls e of
              None \<Rightarrow> Inr []
            | Some tcs \<Rightarrow> evaluateToolCalls rt tcs calls []) of
        Inl err \<Rightarrow> Inl err
      | Inr results \<Rightarrow>
          Inr (results @ (case se_tool_calls_not e of
                            None \<Rightarrow> []
                          | Some nots \<Rightarrow> evaluateToolCallsNot nots calls)))"

definition checks_no_arguments :: "StepExpectation \<Rightarrow> bool" where
  "checks_no_arguments e =
     (case se_tool_calls e of
        None \<Rightarrow> True
      | Some tcs \<Rightarrow> list_all (\<lambda>tc. tca_args tc = None) tcs)"

subsection \<open>Model boundaries\<close>

text \<open>
  What the claims about the executor speak of. A boundary can be observed from outside:
  \<open>logged llm\<close> is the boundary \<open>llm\<close> that also writes each of its answers, in order, to a
  log kept in the world; the executor cannot write to the log, so the log of an execution
  holds exactly the calls made. A reply is a fault when the boundary threw (an error of the
  service, a malformed reply that could not be read, a timeout) or when it holds no choice.
\<close>

definition logged :: "'w model_boundary \<Rightarrow> ('w \<times> reply list) model_boundary" where
  "logged llm transcript world =
     (case llm transcript (fst world) of (r, w') \<Rightarrow> (r, (w', snd world @ [r])))"

definition logged_boundaries :: "'w boundaries \<Rightarrow> ('w \<times> reply list) boundaries" where
  "logged_boundaries b =
     \<lparr>callLLM = logged (callLLM b),
      fetchPrompt = (\<lambda>source world. case fetchPrompt b source (fst world) of (r, w') \<Rightarrow> (r, (w', snd world)))\<rparr>"

fun fault_of :: "reply \<Rightarrow> js_error option" where
  "fault_of (Inl e) = Some e"
| "fault_of (Inr completion) =
     (if choices completion = [] then Some (Error ''No response from LLM'') else None)"

text \<open>
  A log without a fault, and a log whose last reply is a fault and the only one.
\<close>

definition fault_free :: "reply list \<Rightarrow> bool" where
  "fault_free replies = list_all (\<lambda>r. fault_of r = None) replies"

definition ends_in_fault :: "reply list \<Rightarrow> js_error \<Rightarrow> bool" where
  "ends_in_fault replies e =
     (replies \<noteq> [] \<and> fault_free (butlast replies) \<and> fault_of (last replies) = Some e)"

text \<open>
  A model boundary that answers every call with tool invocations which the step's mock
  table resolves, and the tool invocations that a reply holds.
\<close>

definition answers_with_tool_calls :: "js_runtime \<Rightarrow> 'w model_boundary \<Rightarrow> StepMock option \<Rightarrow> bool" where
  "answers_with_tool_calls rt llm mock =
     (\<forall>transcript w. \<exists>completion msg others w'.
        llm transcript w = (Inr completion, w') \<and> choices completion = msg # others
        \<and> has_tool_calls msg \<and> \<not> isl (resolveMocks rt (the (tool_calls msg)) mock))"

definition invocations :: "reply \<Rightarrow> ToolCall list" where
  "invocations r =
     (case r of
        Inl e \<Rightarrow> []
      | Inr completion \<Rightarrow>
          (case choices completion of
             [] \<Rightarrow> []
           | msg # others \<Rightarrow> (case tool_calls msg of None \<Rightarrow> [] | Some tcs \<Rightarrow> tcs)))"

definition system_entry :: "string \<Rightarrow> ChatMessage" where
  "system_entry systemPrompt =
     \<lparr>role = System, content = Some systemPrompt, tool_calls = None, tool_call_id = None\<rparr>"

subsection \<open>Inputs of the closed evaluations\<close>

definition search_call :: ToolCall where
  "search_call = \<lparr>tc_id = ''tc_1'', tc_name = ''search'', tc_arguments = ''{}''\<rparr>"

definition unterminated_group :: jsval where
  "unterminated_group = JObj [(''q'', JObj [(''matches'', JStr ''('')])]"

definition unterminated_group_mock :: StepMock where
  "unterminated_group_mock =
     [(''search'',
       Def \<lparr>mock_return = None, mock_error = None,
            mock_conditions = Some [\<lparr>cond_when = unterminated_group, cond_return = JNum (Fin 1)\<rparr>],
            mock_default = None\<rparr>)]"

definition expects_reply :: StepExpectation where
  "expects_reply =
     \<lparr>se_tool_calls = None, se_tool_calls_not = None,
      se_response = Some \<lparr>ra_contains = Some (One ''12''), ra_contains_any = None, ra_not_contains = None,
                          ra_matches = None, ra_min_length = None, ra_max_length = None\<rparr>\<rparr>"

definition checks_unterminated_group :: StepExpectation where
  "checks_unterminated_group =
     expects_reply\<lparr>se_tool_calls :=
       Some [\<lparr>tca_name = ''search'', tca_args = Some [(''q'', JObj [(''matches'', JStr ''('')])],
              tca_count = None\<rparr>]\<rparr>"

definition asking_step :: "StepExpectation \<Rightarrow> StepMock option \<Rightarrow> TestStep" where
  "asking_step expectation mock =
     \<lparr>step_user = Some ''Weather in Berlin?'', step_expect = Some expectation, step_mock = mock,
      step_assert = None\<rparr>"

definition literal_test :: "TestStep list \<Rightarrow> TestDefinition" where
  "literal_test sts = \<lparr>test_name = ''weather'', system_prompt = Literal ''You are helpful'', test_steps = sts\<rparr>"

definition two_turns :: Config where
  "two_turns = \<lparr>max_turns = 2, promptman_configured = False\<rparr>"

definition text_reply :: "string \<Rightarrow> ChatCompletionResponse" where
  "text_reply text =
     \<lparr>choices = [\<lparr>role = Assistant, content = Some text, tool_calls = None, tool_call_id = None\<rparr>],
      usage = None\<rparr>"

definition tool_reply :: "ToolCall list \<Rightarrow> ChatCompletionResponse" where
  "tool_reply tcs =
     \<lparr>choices = [\<lparr>role = Assistant, content = None, tool_calls = Some tcs, tool_call_id = None\<rparr>],
      usage = None\<rparr>"

definition no_content_reply :: ChatCompletionResponse where
  "no_content_reply =
     \<lparr>choices = [\<lparr>role = Assistant, content = None, tool_calls = None, tool_call_id = None\<rparr>],
      usage = None\<rparr>"

definition service_error :: js_error where
  "service_error = Error ''LLM API error: 500 Internal Server Error''"

text \<open>
  A boundary that answers from a script, which is its world: each call takes the next reply
  of the script, and the boundary throws when the script is used up.
\<close>

definition scripted :: "(reply list) model_boundary" where
  "scripted transcript script =
     (case script of
        [] \<Rightarrow> (Inl service_error, [])
      | r # rest \<Rightarrow> (r, rest))"

text \<open>
  A boundary that answers every call with the same completion, in any world, and the one
  that always answers with the same tool invocations.
\<close>

definition always_replies :: "ChatCompletionResponse \<Rightarrow> 'w model_boundary" where
  "always_replies completion transcript w = (Inr completion, w)"

definition always_calls :: "ToolCall list \<Rightarrow> 'w model_boundary" where
  "always_calls tcs = always_replies (tool_reply tcs)"

text \<open>A prompt service that is not reachable.\<close>

definition no_prompt_service :: "PromptmanSource \<Rightarrow> 'w \<Rightarrow> (js_error + string) \<times> 'w" where
  "no_prompt_service source w = (Inl (Error ''Promptman API key required''), w)"

definition opened :: exec_state where
  "opened = initial_state\<lparr>messages := [system_entry ''You are helpful'']\<rparr>"


section \<open>Facts about the value matchers\<close>

lemma convertible_nullish [simp]:
  "convertible (nullish v (JStr [])) = convertible v"
  by (cases v) simp_all

lemma number_is_convertible:
  "ToNumber rt v \<noteq> NaN \<Longrightarrow> convertible v"
  by (cases v) (simp_all split: if_splits)

lemma map_of_only_category:
  "map_of (only_category kvs c) k = (if k \<in> set (category_keys c) then map_of kvs k else None)"
  unfolding only_category_def
  by (induction kvs) auto

lemma has_key_only_category:
  "has_key (JObj (only_category kvs c)) k = (k \<in> set (category_keys c) \<and> has_key (JObj kvs) k)"
  by (simp add: map_of_only_category)

lemma field_only_category:
  "k \<in> set (category_keys c) \<Longrightarrow> field (JObj (only_category kvs c)) k = field (JObj kvs) k"
  by (simp add: map_of_only_category)

lemma has_category_simps:
  "has_category kvs CatEquals = has_key (JObj kvs) ''equals''"
  "has_category kvs CatContains = has_key (JObj kvs) ''contains''"
  "has_category kvs CatNotContains = has_key (JObj kvs) ''not_contains''"
  "has_category kvs CatMatches = has_key (JObj kvs) ''matches''"
  "has_category kvs CatRange = (has_key (JObj kvs) ''gte'' \<or> has_key (JObj kvs) ''lte'')"
  by (simp_all add: has_category_def)

lemma find_precedence_cases:
  "find P [a, b, c, d, e] = Some x \<longleftrightarrow>
     (P a \<and> x = a) \<or> (\<not> P a \<and> P b \<and> x = b) \<or> (\<not> P a \<and> \<not> P b \<and> P c \<and> x = c)
     \<or> (\<not> P a \<and> \<not> P b \<and> \<not> P c \<and> P d \<and> x = d)
     \<or> (\<not> P a \<and> \<not> P b \<and> \<not> P c \<and> \<not> P d \<and> P e \<and> x = e)"
  by auto

lemma checkArgValue_object:
  "checkArgValue rt actual (JObj kvs) path = checkObject rt actual (JObj kvs) path"
  by (simp add: checkArgValue_def)

text \<open>
  \<^verbatim>\<open>checkArgValue\<close> decides a structured predicate by the single category that comes first
  in the order Equals, Contains, NotContains, Matches, Range: its outcome (the verdict, the
  message, or the error thrown) is the outcome of that category's keys alone.
\<close>

lemma checkArgValue_precedence:
  assumes "find (has_category kvs) assertion_precedence = Some c"
  shows "checkArgValue rt actual (JObj (only_category kvs c)) path = checkArgValue rt actual (JObj kvs) path"
proof -
  note defs = checkArgValue_object checkObject_def checkRange_def has_key_only_category field_only_category
  from assms consider
      "c = CatEquals" "has_key (JObj kvs) ''equals''"
    | "c = CatContains" "\<not> has_key (JObj kvs) ''equals''" "has_key (JObj kvs) ''contains''"
    | "c = CatNotContains" "\<not> has_key (JObj kvs) ''equals''" "\<not> has_key (JObj kvs) ''contains''"
        "has_key (JObj kvs) ''not_contains''"
    | "c = CatMatches" "\<not> has_key (JObj kvs) ''equals''" "\<not> has_key (JObj kvs) ''contains''"
        "\<not> has_key (JObj kvs) ''not_contains''" "has_key (JObj kvs) ''matches''"
    | "c = CatRange" "\<not> has_key (JObj kvs) ''equals''" "\<not> has_key (JObj kvs) ''contains''"
        "\<not> has_key (JObj kvs) ''not_contains''" "\<not> has_key (JObj kvs) ''matches''"
        "has_key (JObj kvs) ''gte'' \<or> has_key (JObj kvs) ''lte''"
    unfolding assertion_precedence_def find_precedence_cases has_category_simps by blast
  then show ?thesis
  proof cases
    case 1 then show ?thesis by (simp add: defs Let_def del: has_key.simps field.simps cong: if_cong sum.case_cong)
  next
    case 2 then show ?thesis by (simp add: defs Let_def del: has_key.simps field.simps cong: if_cong sum.case_cong)
  next
    case 3 then show ?thesis by (simp add: defs Let_def del: has_key.simps field.simps cong: if_cong sum.case_cong)
  next
    case 4 then show ?thesis by (simp add: defs Let_def del: has_key.simps field.simps cong: if_cong sum.case_cong)
  next
    case 5 then show ?thesis by (simp add: defs Let_def del: has_key.simps field.simps cong: if_cong sum.case_cong)
  qed
qed

text \<open>
  \<^verbatim>\<open>matchesArgValue\<close> follows the same order on every structured predicate except those on
  which \<^verbatim>\<open>not_contains\<close> would decide and \<^verbatim>\<open>matches\<close> is given as well.
\<close>

lemma matchesArgValue_precedence_elsewhere:
  assumes "find (has_category kvs) assertion_precedence = Some c"
      and "c = CatNotContains \<Longrightarrow> \<not> has_key (JObj kvs) ''matches''"
  shows "matchesArgValue rt actual (JObj (only_category kvs c)) = matchesArgValue rt actual (JObj kvs)"
proof (cases "convertible actual")
  case False
  then show ?thesis by (simp add: matchesArgValue_def js_String_def js_Number_def)
next
  case True
  note defs = matchesArgValue_def js_String_def js_Number_def has_key_only_category field_only_category
  from assms consider
      "c = CatEquals" "has_key (JObj kvs) ''equals''"
    | "c = CatContains" "\<not> has_key (JObj kvs) ''equals''" "has_key (JObj kvs) ''contains''"
    | "c = CatNotContains" "\<not> has_key (JObj kvs) ''equals''" "\<not> has_key (JObj kvs) ''contains''"
        "has_key (JObj kvs) ''not_contains''" "\<not> has_key (JObj kvs) ''matches''"
    | "c = CatMatches" "\<not> has_key (JObj kvs) ''equals''" "\<not> has_key (JObj kvs) ''contains''"
        "\<not> has_key (JObj kvs) ''not_contains''" "has_key (JObj kvs) ''matches''"
    | "c = CatRange" "\<not> has_key (JObj kvs) ''equals''" "\<not> has_key (JObj kvs) ''contains''"
        "\<not> has_key (JObj kvs) ''not_contains''" "\<not> has_key (JObj kvs) ''matches''"
        "has_key (JObj kvs) ''gte'' \<or> has_key (JObj kvs) ''lte''"
    unfolding assertion_precedence_def find_precedence_cases has_category_simps by blast
  then show ?thesis
  proof cases
    case 1 with True show ?thesis by (simp add: defs Let_def del: has_key.simps field.simps cong: if_cong)
  next
    case 2 with True show ?thesis by (simp add: defs Let_def del: has_key.simps field.simps cong: if_cong)
  next
    case 3 with True show ?thesis by (simp add: defs Let_def del: has_key.simps field.simps cong: if_cong)
  next
    case 4 with True show ?thesis by (simp add: defs Let_def del: has_key.simps field.simps cong: if_cong)
  next
    case 5 with True show ?thesis by (simp add: defs Let_def del: has_key.simps field.simps cong: if_cong)
  qed
qed

text \<open>
  When Range decides and both bounds are given, the check passes exactly when the check of
  each bound alone passes, in both evaluators.
\<close>

lemma check_range_conjoined:
  assumes "find (has_category kvs) assertion_precedence = Some CatRange"
      and "has_key (JObj kvs) ''gte''" and "has_key (JObj kvs) ''lte''"
  shows "passes (checkArgValue rt actual (JObj kvs) path)
         = (passes (checkArgValue rt actual (JObj [(''gte'', field (JObj kvs) ''gte'')]) path)
            \<and> passes (checkArgValue rt actual (JObj [(''lte'', field (JObj kvs) ''lte'')]) path))"
proof -
  from assms(1) have no: "\<not> has_key (JObj kvs) ''equals''" "\<not> has_key (JObj kvs) ''contains''"
      "\<not> has_key (JObj kvs) ''not_contains''" "\<not> has_key (JObj kvs) ''matches''"
    unfolding assertion_precedence_def find_precedence_cases has_category_simps by auto
  have both: "passes (checkObject rt actual (JObj kvs) path)
              = (convertible actual
                 \<and> convertible (field (JObj kvs) ''gte'') \<and> convertible (field (JObj kvs) ''lte'')
                 \<and> js_ge (ToNumber rt actual) (ToNumber rt (field (JObj kvs) ''gte''))
                 \<and> js_le (ToNumber rt actual) (ToNumber rt (field (JObj kvs) ''lte'')))"
    using no assms(2,3)
    by (simp add: checkObject_def checkRange_def js_String_def js_Number_def passes_def ok_def fail_def
          Let_def del: has_key.simps field.simps)
  have g: "passes (checkObject rt actual (JObj [(''gte'', field (JObj kvs) ''gte'')]) path)
           = (convertible actual \<and> convertible (field (JObj kvs) ''gte'')
              \<and> js_ge (ToNumber rt actual) (ToNumber rt (field (JObj kvs) ''gte'')))"
    by (simp add: checkObject_def checkRange_def js_String_def js_Number_def passes_def ok_def fail_def Let_def)
  have l: "passes (checkObject rt actual (JObj [(''lte'', field (JObj kvs) ''lte'')]) path)
           = (convertible actual \<and> convertible (field (JObj kvs) ''lte'')
              \<and> js_le (ToNumber rt actual) (ToNumber rt (field (JObj kvs) ''lte'')))"
    by (simp add: checkObject_def checkRange_def js_String_def js_Number_def passes_def ok_def fail_def Let_def)
  show ?thesis
    unfolding checkArgValue_object both g l by blast
qed

lemma match_range_conjoined:
  assumes "find (has_category kvs) assertion_precedence = Some CatRange"
      and "has_key (JObj kvs) ''gte''" and "has_key (JObj kvs) ''lte''"
  shows "(matchesArgValue rt actual (JObj kvs) = Inr True)
         = (matchesArgValue rt actual (JObj [(''gte'', field (JObj kvs) ''gte'')]) = Inr True
            \<and> matchesArgValue rt actual (JObj [(''lte'', field (JObj kvs) ''lte'')]) = Inr True)"
proof -
  from assms(1) have no: "\<not> has_key (JObj kvs) ''equals''" "\<not> has_key (JObj kvs) ''contains''"
      "\<not> has_key (JObj kvs) ''not_contains''" "\<not> has_key (JObj kvs) ''matches''"
    unfolding assertion_precedence_def find_precedence_cases has_category_simps by auto
  have both: "(matchesArgValue rt actual (JObj kvs) = Inr True)
              = (convertible actual
                 \<and> convertible (field (JObj kvs) ''gte'') \<and> convertible (field (JObj kvs) ''lte'')
                 \<and> \<not> js_lt (ToNumber rt actual) (ToNumber rt (field (JObj kvs) ''gte''))
                 \<and> \<not> js_gt (ToNumber rt actual) (ToNumber rt (field (JObj kvs) ''lte'')))"
    using no assms(2,3)
    by (simp add: matchesArgValue_def js_String_def js_Number_def Let_def del: has_key.simps field.simps)
  have g: "(matchesArgValue rt actual (JObj [(''gte'', field (JObj kvs) ''gte'')]) = Inr True)
           = (convertible actual \<and> convertible (field (JObj kvs) ''gte'')
              \<and> \<not> js_lt (ToNumber rt actual) (ToNumber rt (field (JObj kvs) ''gte'')))"
    by (simp add: matchesArgValue_def js_String_def js_Number_def Let_def)
  have l: "(matchesArgValue rt actual (JObj [(''lte'', field (JObj kvs) ''lte'')]) = Inr True)
           = (convertible actual \<and> convertible (field (JObj kvs) ''lte'')
              \<and> \<not> js_gt (ToNumber rt actual) (ToNumber rt (field (JObj kvs) ''lte'')))"
    by (simp add: matchesArgValue_def js_String_def js_Number_def Let_def)
  show ?thesis
    unfolding both g l by blast
qed

lemma matchers_agree_object:
  assumes dom: "matchers_agree_on rt actual (JObj kvs)"
  shows "map_sum id passed (checkArgValue rt actual (JObj kvs) path) = matchesArgValue rt actual (JObj kvs)"
proof (cases "convertible actual")
  case False
  then show ?thesis
    by (simp add: checkArgValue_def checkObject_def matchesArgValue_def js_String_def js_Number_def)
next
  case True
  have range_ge: "js_ge a b = (\<not> js_lt a b)" if "a \<noteq> NaN" "b \<noteq> NaN" for a b
    using that by (simp add: js_ge_def)
  have range_le: "js_le a b = (\<not> js_gt a b)" if "a \<noteq> NaN" "b \<noteq> NaN" for a b
    using that by (simp add: js_le_def js_gt_def)
  note defs = checkArgValue_def checkObject_def checkRange_def matchesArgValue_def js_String_def
    js_Number_def ok_def fail_def Let_def
  let ?e = "JObj kvs"
  consider (eq) "has_key ?e ''equals''"
    | (co) "\<not> has_key ?e ''equals''" "has_key ?e ''contains''"
    | (nc) "\<not> has_key ?e ''equals''" "\<not> has_key ?e ''contains''"
           "has_key ?e ''not_contains''" "\<not> has_key ?e ''matches''"
    | (ma) "\<not> has_key ?e ''equals''" "\<not> has_key ?e ''contains''"
           "\<not> has_key ?e ''not_contains''" "has_key ?e ''matches''"
    | (ra) "\<not> has_key ?e ''equals''" "\<not> has_key ?e ''contains''"
           "\<not> has_key ?e ''not_contains''" "\<not> has_key ?e ''matches''"
           "no_NaN_in_range rt actual ?e"
    using dom unfolding matchers_agree_on_def jsval.case by (auto split: if_splits)
  then show ?thesis
  proof cases
    case eq
    with True show ?thesis
      by (simp add: defs del: has_key.simps field.simps split: sum.splits)
  next
    case co
    with True show ?thesis
      by (simp add: defs del: has_key.simps field.simps split: sum.splits)
  next
    case nc
    with True show ?thesis
      by (simp add: defs del: has_key.simps field.simps split: sum.splits)
  next
    case ma
    with True show ?thesis
      by (simp add: defs del: has_key.simps field.simps split: sum.splits)
  next
    case ra
    have g: "convertible (field ?e ''gte'')" "ToNumber rt actual \<noteq> NaN"
        "ToNumber rt (field ?e ''gte'') \<noteq> NaN" if "has_key ?e ''gte''"
      using ra(5) that number_is_convertible unfolding no_NaN_in_range_def by blast+
    have l: "convertible (field ?e ''lte'')" "ToNumber rt actual \<noteq> NaN"
        "ToNumber rt (field ?e ''lte'') \<noteq> NaN" if "has_key ?e ''lte''"
      using ra(5) that number_is_convertible unfolding no_NaN_in_range_def by blast+
    show ?thesis
    proof (cases "has_key ?e ''gte''"; cases "has_key ?e ''lte''")
      assume k: "has_key ?e ''gte''" "has_key ?e ''lte''"
      with True ra(1-4) g l show ?thesis
        by (simp add: defs range_ge range_le del: has_key.simps field.simps)
    next
      assume k: "has_key ?e ''gte''" "\<not> has_key ?e ''lte''"
      with True ra(1-4) g show ?thesis
        by (simp add: defs range_ge range_le del: has_key.simps field.simps)
    next
      assume k: "\<not> has_key ?e ''gte''" "has_key ?e ''lte''"
      with True ra(1-4) l show ?thesis
        by (simp add: defs range_ge range_le del: has_key.simps field.simps)
    next
      assume k: "\<not> has_key ?e ''gte''" "\<not> has_key ?e ''lte''"
      with True ra(1-4) show ?thesis
        by (simp add: defs del: has_key.simps field.simps)
    qed
  qed
qed

section \<open>Claims about the value matcher\<close>

text \<open>
  C1: the claim fails on \<^verbatim>\<open>matchesArgValue\<close>, which tests \<^verbatim>\<open>matches\<close> before
  \<^verbatim>\<open>not_contains\<close>, while its sibling \<^verbatim>\<open>checkArgValue\<close> has the order of the claim. On the
  actual value \<^verbatim>\<open>"ab"\<close> and the predicate \<^verbatim>\<open>{not_contains: "a", matches: "b"}\<close> the highest
  category in the order Equals, Contains, NotContains, Matches, Range is NotContains, which
  alone does not match (\<^verbatim>\<open>"ab"\<close> contains \<^verbatim>\<open>"a"\<close>) and which decides in \<^verbatim>\<open>checkArgValue\<close>,
  whose Outcome fails; \<^verbatim>\<open>matchesArgValue\<close> returns a match.
\<close>

theorem matchesArgValue_precedence_divergence:
  "find (has_category [(''not_contains'', JStr ''a''), (''matches'', JStr ''b'')]) assertion_precedence
     = Some CatNotContains
   \<and> matchesArgValue js (JStr ''ab'')
        (JObj (only_category [(''not_contains'', JStr ''a''), (''matches'', JStr ''b'')] CatNotContains))
     = Inr False
   \<and> matchesArgValue js (JStr ''ab'') (JObj [(''not_contains'', JStr ''a''), (''matches'', JStr ''b'')])
     = Inr True
   \<and> checkArgValue js (JStr ''ab'') (JObj [(''not_contains'', JStr ''a''), (''matches'', JStr ''b'')]) ''q''
     = Inr (fail (''q: expected NOT to contain '' @ dq @ ''a'' @ dq @ '', but it does''))"
  by (simp add: assertion_precedence_def has_category_def only_category_def matchesArgValue_def
        checkArgValue_def checkObject_def js_String_def js_Number_def js_simps)

text \<open>
  C7, as stated, for \<^verbatim>\<open>checkArgValue\<close>: refuted. Against the number predicate \<^verbatim>\<open>1\<close> the
  actual value \<^verbatim>\<open>true\<close> passes, since \<^verbatim>\<open>Number(true) === 1\<close>, although the string forms
  \<^verbatim>\<open>"true"\<close> and \<^verbatim>\<open>"1"\<close> differ; against the boolean predicate \<^verbatim>\<open>true\<close> the actual string
  \<^verbatim>\<open>"true"\<close> fails, although the string forms are equal.
\<close>

theorem checkArgValue_scalar_counterexample:
  "passes (checkArgValue js (JBool True) (JNum (Fin 1)) ''arg'')
   \<and> ToString js (JBool True) \<noteq> ToString js (JNum (Fin 1))
   \<and> \<not> passes (checkArgValue js (JStr ''true'') (JBool True) ''arg'')
   \<and> ToString js (JStr ''true'') = ToString js (JBool True)"
  by (simp add: checkArgValue_def js_String_def js_Number_def passes_def ok_def fail_def js_eq_def
        js_simps show_nat.simps)

text \<open>
  C7, amended: for a scalar predicate, \<^verbatim>\<open>matchesArgValue\<close> matches exactly when the string
  form of the actual value equals the string form of the predicate, for strings, numbers and
  booleans alike. \<^verbatim>\<open>checkArgValue\<close> passes for a string predicate exactly when the string form
  of the actual value equals it, for a number predicate exactly when \<^verbatim>\<open>Number(actual)\<close> is
  strictly equal to it, and for a boolean predicate exactly when the actual value is that
  boolean. An actual value that cannot be converted has no string form and no number: then
  \<^verbatim>\<open>matchesArgValue\<close> throws the TypeError of the conversion, and \<^verbatim>\<open>checkArgValue\<close> does not
  pass.
\<close>

theorem scalar_predicates:
  "matchesArgValue rt actual (JStr s)
     = (if convertible actual then Inr (ToString rt actual = ToString rt (JStr s)) else Inl cannot_convert)
   \<and> matchesArgValue rt actual (JNum n)
     = (if convertible actual then Inr (ToString rt actual = ToString rt (JNum n)) else Inl cannot_convert)
   \<and> matchesArgValue rt actual (JBool b)
     = (if convertible actual then Inr (ToString rt actual = ToString rt (JBool b)) else Inl cannot_convert)
   \<and> passes (checkArgValue rt actual (JStr s) path)
     = (convertible actual \<and> ToString rt actual = ToString rt (JStr s))
   \<and> passes (checkArgValue rt actual (JNum n) path) = (convertible actual \<and> js_eq (ToNumber rt actual) n)
   \<and> passes (checkArgValue rt actual (JBool b) path) = (actual = JBool b)"
  by (simp add: matchesArgValue_def checkArgValue_def js_String_def js_Number_def passes_def ok_def fail_def)

theorem scalar_predicates_witness:
  "matchesArgValue js (JNum (Fin 5)) (JStr ''5'') = Inr True
   \<and> matchesArgValue js (JStr ''5'') (JNum (Fin 5)) = Inr True
   \<and> matchesArgValue js (JStr ''true'') (JBool True) = Inr True
   \<and> matchesArgValue js (JObj [(''toString'', JNum (Fin 1))]) (JStr ''5'') = Inl cannot_convert
   \<and> passes (checkArgValue js (JNum (Fin 5)) (JStr ''5'') ''arg'')
   \<and> passes (checkArgValue js (JStr ''5'') (JNum (Fin 5)) ''arg'')
   \<and> \<not> passes (checkArgValue js (JStr ''true'') (JBool True) ''arg'')
   \<and> \<not> passes (checkArgValue js (JObj [(''toString'', JNum (Fin 1))]) (JStr ''5'') ''arg'')"
  using scalar_predicates [where rt = js and actual = "JNum (Fin 5)" and s = "''5''" and n = "Fin 5"
          and b = True and path = "''arg''"]
        scalar_predicates [where rt = js and actual = "JStr ''5''" and s = "''5''" and n = "Fin 5"
          and b = True and path = "''arg''"]
        scalar_predicates [where rt = js and actual = "JStr ''true''" and s = "''5''" and n = "Fin 5"
          and b = True and path = "''arg''"]
        scalar_predicates [where rt = js and actual = "JObj [(''toString'', JNum (Fin 1))]" and s = "''5''"
          and n = "Fin 5" and b = True and path = "''arg''"]
  by (simp add: js_eq_def js_simps show_nat.simps)

text \<open>
  C9, as stated: refuted. The two evaluators are two separate functions, and their verdicts
  differ: for a \<^verbatim>\<open>null\<close> predicate (\<^verbatim>\<open>matchesArgValue\<close> matches, \<^verbatim>\<open>checkArgValue\<close> fails as
  unsupported); for the number predicate \<^verbatim>\<open>1\<close> against \<^verbatim>\<open>true\<close> and the boolean predicate
  \<^verbatim>\<open>true\<close> against \<^verbatim>\<open>"true"\<close>; for \<^verbatim>\<open>{not_contains: "a", matches: "b"}\<close> against
  \<^verbatim>\<open>"ab"\<close>; and for the Range predicate \<^verbatim>\<open>{gte: 1}\<close> against an absent argument, whose number
  form is NaN.
\<close>

theorem matchers_differ_counterexample:
  "matchesArgValue js (JStr ''x'') JNull = Inr True
   \<and> \<not> passes (checkArgValue js (JStr ''x'') JNull ''arg'')
   \<and> matchesArgValue js (JBool True) (JNum (Fin 1)) = Inr False
   \<and> passes (checkArgValue js (JBool True) (JNum (Fin 1)) ''arg'')
   \<and> matchesArgValue js (JStr ''true'') (JBool True) = Inr True
   \<and> \<not> passes (checkArgValue js (JStr ''true'') (JBool True) ''arg'')
   \<and> matchesArgValue js (JStr ''ab'') (JObj [(''not_contains'', JStr ''a''), (''matches'', JStr ''b'')])
     = Inr True
   \<and> \<not> passes (checkArgValue js (JStr ''ab'') (JObj [(''not_contains'', JStr ''a''), (''matches'', JStr ''b'')])
             ''arg'')
   \<and> matchesArgValue js JUndefined (JObj [(''gte'', JNum (Fin 1))]) = Inr True
   \<and> \<not> passes (checkArgValue js JUndefined (JObj [(''gte'', JNum (Fin 1))]) ''arg'')"
  by (simp add: matchesArgValue_def checkArgValue_def checkObject_def checkRange_def js_String_def
        js_Number_def passes_def ok_def fail_def js_eq_def js_ge_def js_simps show_nat.simps)

text \<open>
  C9, amended: \<^verbatim>\<open>checkArgValue\<close> produces a passing Outcome exactly when \<^verbatim>\<open>matchesArgValue\<close>
  returns a match, and throws exactly when it throws, for string predicates, for arrays and
  objects without a recognised key, for structured predicates that carry \<^verbatim>\<open>equals\<close> or
  \<^verbatim>\<open>contains\<close>, for those that carry one of \<^verbatim>\<open>not_contains\<close> and \<^verbatim>\<open>matches\<close> but not both,
  and for Range predicates when \<^verbatim>\<open>Number(actual)\<close> and every bound that is given are numbers
  other than NaN. For an absent or \<^verbatim>\<open>null\<close> predicate \<^verbatim>\<open>matchesArgValue\<close> matches and
  \<^verbatim>\<open>checkArgValue\<close> fails.
\<close>

theorem matchers_agree:
  "(matchers_agree_on rt actual expected \<longrightarrow>
      map_sum id passed (checkArgValue rt actual expected path) = matchesArgValue rt actual expected)
   \<and> (expected = JNull \<or> expected = JUndefined \<longrightarrow>
      matchesArgValue rt actual expected = Inr True \<and> \<not> passes (checkArgValue rt actual expected path))"
proof (intro conjI impI)
  assume dom: "matchers_agree_on rt actual expected"
  show "map_sum id passed (checkArgValue rt actual expected path) = matchesArgValue rt actual expected"
  proof (cases expected)
    case (JObj kvs)
    with dom show ?thesis by (simp add: matchers_agree_object)
  qed (use dom in \<open>simp_all add: matchers_agree_on_def checkArgValue_def checkObject_def matchesArgValue_def
         js_String_def js_Number_def ok_def fail_def\<close>)
next
  assume "expected = JNull \<or> expected = JUndefined"
  then show "matchesArgValue rt actual expected = Inr True"
    by (auto simp: matchesArgValue_def)
next
  assume "expected = JNull \<or> expected = JUndefined"
  then show "\<not> passes (checkArgValue rt actual expected path)"
    by (auto simp: checkArgValue_def passes_def fail_def)
qed

theorem matchers_agree_witness:
  "matchers_agree_on js (JNum (Fin 3)) (JObj [(''gte'', JNum (Fin 1)), (''lte'', JNum (Fin 5))])
   \<and> map_sum id passed (checkArgValue js (JNum (Fin 3)) (JObj [(''gte'', JNum (Fin 1)), (''lte'', JNum (Fin 5))]) ''guests'')
     = Inr True
   \<and> matchesArgValue js (JNum (Fin 3)) (JObj [(''gte'', JNum (Fin 1)), (''lte'', JNum (Fin 5))]) = Inr True
   \<and> matchesArgValue js JUndefined JNull = Inr True
   \<and> \<not> passes (checkArgValue js JUndefined JNull ''guests'')"
  using matchers_agree [where rt = js and actual = "JNum (Fin 3)"
          and expected = "JObj [(''gte'', JNum (Fin 1)), (''lte'', JNum (Fin 5))]" and path = "''guests''"]
        matchers_agree [where rt = js and actual = JUndefined and expected = JNull and path = "''guests''"]
  by (simp add: matchers_agree_on_def no_NaN_in_range_def matchesArgValue_def js_String_def js_Number_def
        js_gt_def)


section \<open>Facts about the mock resolver\<close>





text \<open>What the verdict of a predicate-map says about its keys.\<close>

lemma first_other_than_eq:
  "first_other_than x xs = x \<longleftrightarrow> (\<forall>v \<in> set xs. v = x)"
  unfolding first_other_than_def
  by (induction xs) auto

lemma first_other_than_split:
  assumes "y \<noteq> x"
  shows "first_other_than x xs = y \<longleftrightarrow> (\<exists>pre post. xs = pre @ y # post \<and> (\<forall>v \<in> set pre. v = x))"
proof
  assume "first_other_than x xs = y"
  with assms have "find (\<lambda>v. v \<noteq> x) xs = Some y"
    by (auto simp: first_other_than_def split: option.splits)
  then obtain i where i: "i < length xs" "xs ! i = y" "\<forall>j < i. \<not> xs ! j \<noteq> x"
    unfolding find_Some_iff by blast
  have "xs = take i xs @ y # drop (Suc i) xs"
    using id_take_nth_drop [OF i(1)] i(2) by simp
  moreover have "\<forall>v \<in> set (take i xs). v = x"
    using i(1,3) by (auto simp: in_set_conv_nth)
  ultimately show "\<exists>pre post. xs = pre @ y # post \<and> (\<forall>v \<in> set pre. v = x)" by blast
next
  assume "\<exists>pre post. xs = pre @ y # post \<and> (\<forall>v \<in> set pre. v = x)"
  then obtain pre post where xs: "xs = pre @ y # post" and pre: "\<forall>v \<in> set pre. v = x" by blast
  from pre have "find (\<lambda>v. v \<noteq> x) (pre @ y # post) = Some y"
    using assms by (induction pre) auto
  then show "first_other_than x xs = y"
    by (simp add: first_other_than_def xs)
qed

lemma map_verdict_full_match:
  "map_verdict rt args predicate_map = Inr True
   \<longleftrightarrow> (\<exists>entries. Object_entries rt predicate_map = Inr entries
                  \<and> (\<forall>kv \<in> set entries. key_verdict rt args kv = Inr True))"
  by (cases "Object_entries rt predicate_map") (auto simp: map_verdict_def first_other_than_eq)

lemma map_verdict_non_match:
  "map_verdict rt args predicate_map = Inr False
   \<longleftrightarrow> (\<exists>passing kv others.
          Object_entries rt predicate_map = Inr (passing @ kv # others)
          \<and> (\<forall>p \<in> set passing. key_verdict rt args p = Inr True)
          \<and> key_verdict rt args kv = Inr False)"
proof (cases "Object_entries rt predicate_map")
  case (Inl e)
  then show ?thesis by (simp add: map_verdict_def)
next
  case (Inr entries)
  have "first_other_than (Inr True) (map (key_verdict rt args) entries) = Inr False
        \<longleftrightarrow> (\<exists>passing kv others. entries = passing @ kv # others
                \<and> (\<forall>p \<in> set passing. key_verdict rt args p = Inr True)
                \<and> key_verdict rt args kv = Inr False)"
    (is "?l \<longleftrightarrow> ?r")
  proof
    assume ?l
    then obtain pre post where split: "map (key_verdict rt args) entries = pre @ Inr False # post"
      and pre: "\<forall>v \<in> set pre. v = Inr True"
      by (subst (asm) first_other_than_split) auto
    from split obtain passing kv others where e: "entries = passing @ kv # others"
      and p: "map (key_verdict rt args) passing = pre" and k: "key_verdict rt args kv = Inr False"
      by (auto simp: map_eq_append_conv map_eq_Cons_conv)
    from p pre have "\<forall>p \<in> set passing. key_verdict rt args p = Inr True" by auto
    with e k show ?r by blast
  next
    assume ?r
    then obtain passing kv others where e: "entries = passing @ kv # others"
      and p: "\<forall>p \<in> set passing. key_verdict rt args p = Inr True"
      and k: "key_verdict rt args kv = Inr False" by blast
    have "map (key_verdict rt args) entries
          = map (key_verdict rt args) passing @ Inr False # map (key_verdict rt args) others"
      by (simp add: e k)
    moreover have "\<forall>v \<in> set (map (key_verdict rt args) passing). v = Inr True"
      using p by auto
    ultimately show ?l
      by (subst first_other_than_split) blast+
  qed
  with Inr show ?thesis by (simp add: map_verdict_def)
qed













lemma empty_conditions_not_conditional:
  assumes "\<not> truthy_str (mock_error mock)" and "mock_conditions mock = Some []"
  shows "resolveMockDefinition rt mock args = Inr (case mock_return mock of Some v \<Rightarrow> v | None \<Rightarrow> JNull)"
  using assms by (simp add: resolveMockDefinition_def split: option.splits)

text \<open>
  A tool whose name is that of a member of \<^verbatim>\<open>Object.prototype\<close> and that has no entry in the
  table resolves to that member: a function, for which \<^verbatim>\<open>JSON.stringify\<close> yields
  \<^verbatim>\<open>undefined\<close>.
\<close>

lemma inherited_tool_name:
  "resolve_call rt (Some []) \<lparr>tc_id = i, tc_name = ''constructor'', tc_arguments = a\<rparr> = Inr None"
  by (simp add: resolve_call_def resolve_response_def Object_prototype_def encode_content_def)

section \<open>Claims about the mock resolver\<close>








section \<open>Facts about the assertion engine\<close>

lemma find_from_beyond:
  "length names \<le> cursor \<Longrightarrow> find (\<lambda>i. names ! i = e) [cursor..<length names] = None"
  by simp

lemma find_from_step:
  "cursor < length names \<Longrightarrow>
   find (\<lambda>i. names ! i = e) [cursor..<length names]
   = (if names ! cursor = e then Some cursor else find (\<lambda>i. names ! i = e) [Suc cursor..<length names])"
  by (simp add: upt_conv_Cons)

lemma indexOf_find:
  "indexOf names x from
   = (case find (\<lambda>i. names ! i = x) [from..<length names] of None \<Rightarrow> - 1 | Some i \<Rightarrow> int i)"
proof (induction names x "from" rule: indexOf.induct)
  case (1 names x "from")
  show ?case
  proof (cases "length names \<le> from")
    case True
    then show ?thesis by (simp add: indexOf.simps [of names x "from"])
  next
    case False
    then have lt: "from < length names" by simp
    show ?thesis
    proof (cases "names ! from = x")
      case True
      with lt show ?thesis by (simp add: indexOf.simps [of names x "from"] find_from_step)
    next
      case neq: False
      with lt "1.IH" show ?thesis
        by (simp add: indexOf.simps [of names x "from"] find_from_step [OF lt])
    qed
  qed
qed

lemma tool_order_loop_greedy:
  "tool_order_loop rt names order cursor
   = (case greedy_scan names order cursor of
        Found \<Rightarrow> ([], True)
      | Unmet e c \<Rightarrow> ([order_outcome rt order' (Unmet e c)], False))"
proof (induction order arbitrary: cursor)
  case Nil
  then show ?case by simp
next
  case (Cons e es)
  show ?case
  proof (cases "find (\<lambda>i. names ! i = e) [cursor..<length names]")
    case None
    then show ?thesis by (simp add: indexOf_find order_outcome_def)
  next
    case (Some i)
    with Cons.IH [of "Suc i"] show ?thesis by (simp add: indexOf_find)
  qed
qed

lemma first_occurrence_subseq:
  "(case find (\<lambda>i. names ! i = e) [cursor..<length names] of
      None \<Rightarrow> False
    | Some i \<Rightarrow> subseq es (drop (Suc i) names))
   \<longleftrightarrow> subseq (e # es) (drop cursor names)"
proof (induction "length names - cursor" arbitrary: cursor)
  case 0
  then show ?case by simp
next
  case (Suc n)
  then have lt: "cursor < length names" by simp
  then have unfold: "drop cursor names = names ! cursor # drop (Suc cursor) names"
    by (simp add: Cons_nth_drop_Suc)
  from Suc.hyps(2) have "n = length names - Suc cursor" by simp
  from Suc.hyps(1) [OF this] show ?case
    by (simp add: find_from_step [OF lt] unfold)
qed

lemma greedy_scan_subseq:
  "greedy_scan names order cursor = Found \<longleftrightarrow> subseq order (drop cursor names)"
proof (induction order arbitrary: cursor)
  case Nil
  then show ?case by simp
next
  case (Cons e es)
  show ?case
  proof (cases "find (\<lambda>i. names ! i = e) [cursor..<length names]")
    case None
    with first_occurrence_subseq [where names = names and e = e and cursor = cursor and es = es]
    show ?thesis by simp
  next
    case (Some i)
    with first_occurrence_subseq [where names = names and e = e and cursor = cursor and es = es]
      Cons.IH [of "Suc i"]
    show ?thesis by simp
  qed
qed

lemma evaluateGlobalAssertions_order:
  assumes "tool_order a = Some order"
  shows "evaluateGlobalAssertions rt a calls turns tokens
         = order_outcome rt order (greedy_scan (map tc_name calls) order 0)
           # evaluateGlobalAssertions rt (a\<lparr>tool_order := None\<rparr>) calls turns tokens"
  using assms
  by (cases "greedy_scan (map tc_name calls) order 0")
     (simp_all add: evaluateGlobalAssertions_def tool_order_loop_greedy [where order' = order]
        order_outcome_def)

lemma evaluateStepAssertions_tool_outcomes:
  "evaluateStepAssertions rt (Some e) calls response
   = (case tool_outcomes rt e calls of
        Inl err \<Rightarrow> Inl err
      | Inr results \<Rightarrow>
          if se_response e \<noteq> None \<and> truthy_str response then
            (case evaluateResponseAssertion rt (the (se_response e)) (the response) of
               Inl err \<Rightarrow> Inl err
             | Inr rs \<Rightarrow> Inr (results @ rs))
          else if se_response e \<noteq> None then Inr (results @ [fail ''Expected a text response but got none''])
          else Inr results)"
  by (simp add: evaluateStepAssertions_def tool_outcomes_def Let_def split: sum.splits)

lemma order_examples:
  "greedy_scan [''search'', ''details'', ''book''] [''search'', ''book''] 0 = Found"
  "greedy_scan [''book'', ''search''] [''search'', ''book''] 0 = Unmet ''book'' 2"
  by (simp_all add: upt_conv_Cons)

lemma evaluateGlobalAssertions_only_order:
  "evaluateGlobalAssertions rt (only_tool_order order) calls turns tokens
   = [order_outcome rt order (greedy_scan (map tc_name calls) order 0)]"
proof -
  have "tool_order (only_tool_order order) = Some order"
    by (simp add: only_tool_order_def)
  from evaluateGlobalAssertions_order [OF this] show ?thesis
    by (simp add: evaluateGlobalAssertions_def only_tool_order_def)
qed

lemma evaluateToolCalls_no_arguments:
  assumes "list_all (\<lambda>tc. tca_args tc = None) tcs"
  shows "\<exists>rs. evaluateToolCalls rt tcs calls results = Inr rs"
  using assms
proof (induction tcs arbitrary: results)
  case Nil
  then show ?case by simp
next
  case (Cons tc tcs)
  then have "\<exists>rs. evaluateToolCallAssertion rt tc calls = Inr rs"
    by (simp add: evaluateToolCallAssertion_def Let_def split: list.splits)
  with Cons show ?case by auto
qed

lemma evaluateToolCalls_no_calls:
  "\<exists>rs. evaluateToolCalls rt tcs [] results = Inr rs"
  by (induction tcs arbitrary: results) (simp_all add: evaluateToolCallAssertion_def)

lemma tool_outcomes_no_calls:
  "\<exists>results. tool_outcomes rt e [] = Inr results"
proof (cases "se_tool_calls e")
  case None
  then show ?thesis by (simp add: tool_outcomes_def)
next
  case (Some tcs)
  from evaluateToolCalls_no_calls [of rt tcs "[]"] obtain rs
    where "evaluateToolCalls rt tcs [] [] = Inr rs" by blast
  with Some show ?thesis by (simp add: tool_outcomes_def)
qed

section \<open>Claims about the assertion engine\<close>

text \<open>
  C4: the whole-test \<^verbatim>\<open>tool_order\<close> check is the greedy left-to-right scan: it yields
  exactly one Outcome for the ordering, the passing summary when every expected name is
  found in turn at or after the cursor, and otherwise the failing Outcome that names the
  first unmet name and the cursor position; it passes exactly when the expected names are a
  subsequence of the observed names. Observed search, details, book against expected
  search, book passes; observed book, search against expected search, book fails, the
  unmet name being book after position 2.
\<close>

theorem tool_order_greedy_subsequence:
  assumes "tool_order a = Some order"
  shows "evaluateGlobalAssertions rt a calls turns tokens
           = order_outcome rt order (greedy_scan (map tc_name calls) order 0)
             # evaluateGlobalAssertions rt (a\<lparr>tool_order := None\<rparr>) calls turns tokens
         \<and> passed (order_outcome rt order (greedy_scan (map tc_name calls) order 0))
           = subseq order (map tc_name calls)
         \<and> evaluateGlobalAssertions rt (only_tool_order [''search'', ''book''])
             [named_call ''search'', named_call ''details'', named_call ''book''] turns tokens
           = [ok (''Tool order: search '' @ arrow @ '' book'')]
         \<and> evaluateGlobalAssertions rt (only_tool_order [''search'', ''book''])
             [named_call ''book'', named_call ''search''] turns tokens
           = [fail (''Tool order: expected book after position '' @ String_of_number rt (Fin 2)
                    @ '', not found'')]"
proof (intro conjI)
  show "evaluateGlobalAssertions rt a calls turns tokens
           = order_outcome rt order (greedy_scan (map tc_name calls) order 0)
             # evaluateGlobalAssertions rt (a\<lparr>tool_order := None\<rparr>) calls turns tokens"
    using assms by (rule evaluateGlobalAssertions_order)
  show "passed (order_outcome rt order (greedy_scan (map tc_name calls) order 0))
           = subseq order (map tc_name calls)"
    using greedy_scan_subseq [of "map tc_name calls" order 0]
    by (cases "greedy_scan (map tc_name calls) order 0") (simp_all add: order_outcome_def ok_def fail_def)
  show "evaluateGlobalAssertions rt (only_tool_order [''search'', ''book''])
             [named_call ''search'', named_call ''details'', named_call ''book''] turns tokens
           = [ok (''Tool order: search '' @ arrow @ '' book'')]"
    by (simp add: evaluateGlobalAssertions_only_order named_call_def order_examples order_outcome_def)
  show "evaluateGlobalAssertions rt (only_tool_order [''search'', ''book''])
             [named_call ''book'', named_call ''search''] turns tokens
           = [fail (''Tool order: expected book after position '' @ String_of_number rt (Fin 2)
                    @ '', not found'')]"
    by (simp add: evaluateGlobalAssertions_only_order named_call_def order_examples order_outcome_def)
qed

theorem tool_order_greedy_subsequence_witness:
  "tool_order (only_tool_order [''search'', ''book'']) = Some [''search'', ''book'']
   \<and> evaluateGlobalAssertions js (only_tool_order [''search'', ''book''])
       [named_call ''search'', named_call ''details'', named_call ''book''] 3 1000
     = [ok (''Tool order: search '' @ arrow @ '' book'')]
   \<and> subseq [''search'', ''book''] [''search'', ''details'', ''book'']
   \<and> evaluateGlobalAssertions js (only_tool_order [''search'', ''book''])
       [named_call ''book'', named_call ''search''] 2 500
     = [fail ''Tool order: expected book after position 2, not found'']
   \<and> \<not> subseq [''search'', ''book''] [''book'', ''search'']"
proof -
  have order: "tool_order (only_tool_order [''search'', ''book'']) = Some [''search'', ''book'']"
    by (simp add: only_tool_order_def)
  note passing = tool_order_greedy_subsequence [OF order, where rt = js and turns = 3 and tokens = 1000
          and calls = "[named_call ''search'', named_call ''details'', named_call ''book'']"]
  note failing = tool_order_greedy_subsequence [OF order, where rt = js and turns = 2 and tokens = 500
          and calls = "[named_call ''book'', named_call ''search'']"]
  have two: "String_of_number js (Fin 2) = ''2''"
    by (simp add: js_simps show_nat.simps)
  from passing have p: "evaluateGlobalAssertions js (only_tool_order [''search'', ''book''])
       [named_call ''search'', named_call ''details'', named_call ''book''] 3 1000
     = [ok (''Tool order: search '' @ arrow @ '' book'')]"
    by (elim conjE)
  from failing have f: "evaluateGlobalAssertions js (only_tool_order [''search'', ''book''])
       [named_call ''book'', named_call ''search''] 2 500
     = [fail ''Tool order: expected book after position 2, not found'']"
    by (elim conjE) (simp add: two)
  from order p f show ?thesis by simp
qed

text \<open>
  C8, as stated, for every step expectation: refuted. The expectation below declares a
  response check, and the step has no text reply; it also checks an argument of the call
  \<^verbatim>\<open>search\<close> against the pattern \<^verbatim>\<open>(\<close>. \<^verbatim>\<open>new RegExp\<close> throws while the tool call is
  checked, the error leaves \<^verbatim>\<open>evaluateStepAssertions\<close>, and no Outcome is emitted for the
  response.
\<close>

theorem response_expectation_throw_counterexample:
  "se_response checks_unterminated_group \<noteq> None
   \<and> evaluateStepAssertions js (Some checks_unterminated_group) [search_call] None
     = Inl (SyntaxError ''Invalid regular expression: /(/: Unterminated group'')"
  by (simp add: checks_unterminated_group_def expects_reply_def search_call_def evaluateStepAssertions_def
        evaluateToolCallAssertion_def checkArgValue_def checkObject_def js_String_def js_Number_def
        Object_prototype_def Object_prototype_methods_def js_simps)

text \<open>
  C8, amended: when a response expectation is declared and the step has no text reply (none,
  or the empty string), \<^verbatim>\<open>evaluateStepAssertions\<close> emits, after the outcomes for the tool
  calls, exactly one failing Outcome for the response, whatever response checks are
  declared, unless the evaluation of the tool-call expectations throws, in which case it
  throws that error and emits nothing. When no response expectation is declared it emits
  the outcomes for the tool calls and nothing else; without an expectation it emits
  nothing. The evaluation of the tool-call expectations cannot throw when no expectation
  checks the arguments of a call, or when the step made no call.
\<close>

theorem response_expectation_without_reply:
  "(se_response e \<noteq> None \<and> \<not> truthy_str response \<and> tool_outcomes rt e calls = Inr results \<longrightarrow>
      evaluateStepAssertions rt (Some e) calls response
      = Inr (results @ [fail ''Expected a text response but got none'']))
   \<and> (se_response e \<noteq> None \<and> \<not> truthy_str response \<and> tool_outcomes rt e calls = Inl err \<longrightarrow>
      evaluateStepAssertions rt (Some e) calls response = Inl err)
   \<and> (se_response e = None \<longrightarrow>
      evaluateStepAssertions rt (Some e) calls response = tool_outcomes rt e calls)
   \<and> evaluateStepAssertions rt None calls response = Inr []
   \<and> (checks_no_arguments e \<or> calls = [] \<longrightarrow> (\<exists>outcomes. tool_outcomes rt e calls = Inr outcomes))"
proof (intro conjI impI)
  assume "se_response e \<noteq> None \<and> \<not> truthy_str response \<and> tool_outcomes rt e calls = Inr results"
  then show "evaluateStepAssertions rt (Some e) calls response
      = Inr (results @ [fail ''Expected a text response but got none''])"
    by (simp add: evaluateStepAssertions_tool_outcomes)
next
  assume "se_response e \<noteq> None \<and> \<not> truthy_str response \<and> tool_outcomes rt e calls = Inl err"
  then show "evaluateStepAssertions rt (Some e) calls response = Inl err"
    by (simp add: evaluateStepAssertions_tool_outcomes)
next
  assume "se_response e = None"
  then show "evaluateStepAssertions rt (Some e) calls response = tool_outcomes rt e calls"
    by (simp add: evaluateStepAssertions_tool_outcomes split: sum.splits)
next
  show "evaluateStepAssertions rt None calls response = Inr []"
    by (simp add: evaluateStepAssertions_def)
next
  assume "checks_no_arguments e \<or> calls = []"
  then show "\<exists>outcomes. tool_outcomes rt e calls = Inr outcomes"
  proof
    assume no_args: "checks_no_arguments e"
    show ?thesis
    proof (cases "se_tool_calls e")
      case None
      then show ?thesis by (simp add: tool_outcomes_def)
    next
      case (Some tcs)
      with no_args have "list_all (\<lambda>tc. tca_args tc = None) tcs"
        by (simp add: checks_no_arguments_def)
      from evaluateToolCalls_no_arguments [OF this, of rt calls "[]"] obtain rs
        where "evaluateToolCalls rt tcs calls [] = Inr rs" by blast
      with Some show ?thesis by (simp add: tool_outcomes_def)
    qed
  next
    assume "calls = []"
    with tool_outcomes_no_calls [of rt e] show ?thesis by simp
  qed
qed

theorem response_expectation_without_reply_witness:
  "evaluateStepAssertions js
     (Some \<lparr>se_tool_calls = Some [\<lparr>tca_name = ''search'', tca_args = None, tca_count = None\<rparr>],
            se_tool_calls_not = None,
            se_response = Some \<lparr>ra_contains = Some (Many [''hello'', ''world'']), ra_contains_any = None,
                                ra_not_contains = Some (One ''error''), ra_matches = None,
                                ra_min_length = Some (Fin 5), ra_max_length = None\<rparr>\<rparr>)
     [named_call ''search''] None
   = Inr [ok ''Called search'', fail ''Expected a text response but got none'']
   \<and> evaluateStepAssertions js
       (Some \<lparr>se_tool_calls = None, se_tool_calls_not = Some [\<lparr>tca_name = ''delete'', tca_args = None, tca_count = None\<rparr>],
              se_response = None\<rparr>)
       [named_call ''search''] None
     = Inr [ok ''Tool delete was not called (correct)'']
   \<and> checks_no_arguments
       \<lparr>se_tool_calls = Some [\<lparr>tca_name = ''search'', tca_args = None, tca_count = None\<rparr>],
        se_tool_calls_not = None,
        se_response = Some \<lparr>ra_contains = Some (Many [''hello'', ''world'']), ra_contains_any = None,
                            ra_not_contains = Some (One ''error''), ra_matches = None,
                            ra_min_length = Some (Fin 5), ra_max_length = None\<rparr>\<rparr>"
  using response_expectation_without_reply [where rt = js and calls = "[named_call ''search'']"
          and response = None and results = "[ok ''Called search'']"
          and e = "\<lparr>se_tool_calls = Some [\<lparr>tca_name = ''search'', tca_args = None, tca_count = None\<rparr>],
            se_tool_calls_not = None,
            se_response = Some \<lparr>ra_contains = Some (Many [''hello'', ''world'']), ra_contains_any = None,
                                ra_not_contains = Some (One ''error''), ra_matches = None,
                                ra_min_length = Some (Fin 5), ra_max_length = None\<rparr>\<rparr>"]
        response_expectation_without_reply [where rt = js and calls = "[named_call ''search'']" and response = None
          and e = "\<lparr>se_tool_calls = None, se_tool_calls_not = Some [\<lparr>tca_name = ''delete'', tca_args = None, tca_count = None\<rparr>],
              se_response = None\<rparr>"]
  by (simp add: tool_outcomes_def evaluateToolCallsNot_def evaluateToolCallAssertion_def named_call_def
        checks_no_arguments_def)


section \<open>Facts about the executor\<close>

lemma state_updates [simp]:
  "totalTurns (track_tokens completion st) = totalTurns st"
  "stepResults (track_tokens completion st) = stepResults st"
  "messages (track_tokens completion st) = messages st"
  "totalTurns (record_tool_calls rt completion msg st) = totalTurns st"
  "stepResults (record_tool_calls rt completion msg st) = stepResults st"
  "totalTurns (inject_mocks rt mockResults tcs st) = totalTurns st"
  "stepResults (inject_mocks rt mockResults tcs st) = stepResults st"
  "totalTurns (record_reply completion text st) = totalTurns st"
  "stepResults (record_reply completion text st) = stepResults st"
  by (simp_all add: track_tokens_def record_tool_calls_def inject_mocks_def record_reply_def
        split: option.splits)

lemma push_user_fields [simp]:
  "stepResults (push_user step st) = stepResults st"
  "totalTurns (push_user step st) = totalTurns st"
  by (simp_all add: push_user_def)

text \<open>One turn of the loop, by the reply of the boundary.\<close>

lemma turn_loop_exhausted:
  "\<not> turnCount < maxTurns \<Longrightarrow>
   turn_loop rt llm maxTurns mock st calls turnCount w = (Inr (st, calls, None), w)"
  by (simp add: turn_loop.simps [of rt llm maxTurns mock st calls turnCount w])

lemma turn_loop_throw:
  assumes "turnCount < maxTurns"
      and "llm (messages st) w = (Inl e, w1)"
  shows "turn_loop rt llm maxTurns mock st calls turnCount w
         = (Inl (e, st\<lparr>totalTurns := totalTurns st + 1\<rparr>), w1)"
  using assms by (simp add: turn_loop.simps [of rt llm maxTurns mock st calls turnCount w])

lemma turn_loop_no_choice:
  assumes "turnCount < maxTurns"
      and "llm (messages st) w = (Inr completion, w1)"
      and "choices completion = []"
  shows "turn_loop rt llm maxTurns mock st calls turnCount w
         = (Inl (Error ''No response from LLM'',
                 track_tokens completion (st\<lparr>totalTurns := totalTurns st + 1\<rparr>)), w1)"
  using assms by (simp add: turn_loop.simps [of rt llm maxTurns mock st calls turnCount w])

lemma turn_loop_mock_throw:
  assumes "turnCount < maxTurns"
      and "llm (messages st) w = (Inr completion, w1)"
      and "choices completion = msg # others"
      and "has_tool_calls msg"
      and "resolveMocks rt (the (tool_calls msg)) mock = Inl e"
  shows "turn_loop rt llm maxTurns mock st calls turnCount w
         = (Inl (e, record_tool_calls rt completion msg
                      (track_tokens completion (st\<lparr>totalTurns := totalTurns st + 1\<rparr>))), w1)"
  using assms by (simp add: turn_loop.simps [of rt llm maxTurns mock st calls turnCount w])

lemma turn_loop_tool_calls:
  assumes "turnCount < maxTurns"
      and "llm (messages st) w = (Inr completion, w1)"
      and "choices completion = msg # others"
      and "has_tool_calls msg"
      and "resolveMocks rt (the (tool_calls msg)) mock = Inr mockResults"
  shows "turn_loop rt llm maxTurns mock st calls turnCount w
         = turn_loop rt llm maxTurns mock
             (inject_mocks rt mockResults (the (tool_calls msg))
                (record_tool_calls rt completion msg
                   (track_tokens completion (st\<lparr>totalTurns := totalTurns st + 1\<rparr>))))
             (calls @ the (tool_calls msg)) (turnCount + 1) w1"
  using assms by (simp add: turn_loop.simps [of rt llm maxTurns mock st calls turnCount w])

lemma turn_loop_text:
  assumes "turnCount < maxTurns"
      and "llm (messages st) w = (Inr completion, w1)"
      and "choices completion = msg # others"
      and "\<not> has_tool_calls msg"
      and "truthy_str (content msg)"
  shows "turn_loop rt llm maxTurns mock st calls turnCount w
         = (Inr (record_reply completion (the (content msg))
                   (track_tokens completion (st\<lparr>totalTurns := totalTurns st + 1\<rparr>)),
                 calls, content msg), w1)"
  using assms by (simp add: turn_loop.simps [of rt llm maxTurns mock st calls turnCount w])

lemma turn_loop_no_text:
  assumes "turnCount < maxTurns"
      and "llm (messages st) w = (Inr completion, w1)"
      and "choices completion = msg # others"
      and "\<not> has_tool_calls msg"
      and "\<not> truthy_str (content msg)"
  shows "turn_loop rt llm maxTurns mock st calls turnCount w
         = (Inr (track_tokens completion (st\<lparr>totalTurns := totalTurns st + 1\<rparr>), calls, None), w1)"
  using assms by (simp add: turn_loop.simps [of rt llm maxTurns mock st calls turnCount w])

text \<open>The log of a boundary.\<close>

lemma logged_call:
  "llm transcript w = (r, w1) \<Longrightarrow> logged llm transcript (w, seen) = (r, (w1, seen @ [r]))"
  by (simp add: logged_def)

lemma single_reply_log [simp]:
  "fault_free [] = True"
  "fault_free [r] = (fault_of r = None)"
  "ends_in_fault [] e = False"
  "ends_in_fault [r] e = (fault_of r = Some e)"
  by (simp_all add: fault_free_def ends_in_fault_def)

lemma fault_free_append:
  "fault_free (xs @ ys) = (fault_free xs \<and> fault_free ys)"
  by (simp add: fault_free_def)

lemma ends_in_fault_append:
  assumes "fault_free xs"
  shows "ends_in_fault (xs @ ys) e = ends_in_fault ys e"
proof (cases "ys = []")
  case True
  have "fault_of (last xs) = None" if "xs \<noteq> []"
    using assms that by (simp add: fault_free_def list_all_iff)
  with True show ?thesis by (auto simp: ends_in_fault_def)
next
  case False
  with assms show ?thesis
    by (simp add: ends_in_fault_def butlast_append fault_free_append)
qed


text \<open>
  A turn that ends the loop: every reply other than tool invocations which the mock table
  resolves. The loop then returns with one more entry in the log, and with the fault if the
  reply is one.
\<close>

lemma turn_loop_final:
  assumes lt: "turnCount < maxTurns"
      and r: "llm (messages st) w = (r, w1)"
      and final: "\<not> (\<exists>completion msg others mockResults.
                    r = Inr completion \<and> choices completion = msg # others \<and> has_tool_calls msg
                    \<and> resolveMocks rt (the (tool_calls msg)) mock = Inr mockResults)"
  shows "\<exists>res. turn_loop rt (logged llm) maxTurns mock st calls turnCount (w, seen) = (res, (w1, seen @ [r]))
               \<and> turn_loop rt llm maxTurns mock st calls turnCount w = (res, w1)
               \<and> (\<forall>e. fault_of r = Some e \<longrightarrow> (\<exists>st'. res = Inl (e, st')))
               \<and> (case res of
                     Inl (e, st') \<Rightarrow> stepResults st' = stepResults st
                   | Inr (st', calls', response) \<Rightarrow> stepResults st' = stepResults st)"
proof -
  note lr = logged_call [where llm = llm and transcript = "messages st" and w = w and seen = seen, OF r]
  note unfold = turn_loop.simps [of rt llm maxTurns mock st calls turnCount w]
    turn_loop.simps [of rt "logged llm" maxTurns mock st calls turnCount "(w, seen)"]
  show ?thesis
  proof (cases r)
    case (Inl e)
    with lt r lr show ?thesis by (simp add: unfold)
  next
    case (Inr completion)
    show ?thesis
    proof (cases "choices completion")
      case Nil
      with lt r lr Inr show ?thesis by (simp add: unfold)
    next
      case (Cons msg others)
      show ?thesis
      proof (cases "has_tool_calls msg")
        case True
        with final Inr Cons obtain e where e: "resolveMocks rt (the (tool_calls msg)) mock = Inl e"
          by (cases "resolveMocks rt (the (tool_calls msg)) mock") auto
        with lt r lr Inr Cons True show ?thesis by (simp add: unfold)
      next
        case no_calls: False
        show ?thesis
        proof (cases "truthy_str (content msg)")
          case True
          with lt r lr Inr Cons no_calls show ?thesis by (simp add: unfold)
        next
          case False
          with lt r lr Inr Cons no_calls show ?thesis by (simp add: unfold)
        qed
      qed
    qed
  qed
qed

text \<open>
  The loop against a logged boundary: it returns what it returns against the boundary
  itself; the log grows by the replies received; a fault among them is the last one, and
  the loop returns with it.
\<close>

lemma turn_loop_log:
  "\<exists>res w' new.
     turn_loop rt (logged llm) maxTurns mock st calls turnCount (w, seen) = (res, (w', seen @ new))
     \<and> turn_loop rt llm maxTurns mock st calls turnCount w = (res, w')
     \<and> (fault_free new \<or> (\<exists>e st'. ends_in_fault new e \<and> res = Inl (e, st')))
     \<and> (case res of
           Inl (e, st') \<Rightarrow> stepResults st' = stepResults st
         | Inr (st', calls', response) \<Rightarrow> stepResults st' = stepResults st)"
proof (induction "maxTurns - turnCount" arbitrary: st calls turnCount w seen)
  case 0
  then have ended: "\<not> turnCount < maxTurns" by simp
  have "turn_loop rt (logged llm) maxTurns mock st calls turnCount (w, seen)
          = (Inr (st, calls, None), (w, seen @ []))
        \<and> turn_loop rt llm maxTurns mock st calls turnCount w = (Inr (st, calls, None), w)"
    by (simp add: turn_loop_exhausted [OF ended])
  then show ?case
    by (intro exI [of _ "Inr (st, calls, None)"] exI [of _ w] exI [of _ "[]"]) simp
next
  case (Suc n)
  then have lt: "turnCount < maxTurns" by simp
  obtain r w1 where r: "llm (messages st) w = (r, w1)" by (cases "llm (messages st) w")
  note lr = logged_call [where llm = llm and transcript = "messages st" and w = w and seen = seen, OF r]
  show ?case
  proof (cases "\<exists>completion msg others mockResults.
                  r = Inr completion \<and> choices completion = msg # others \<and> has_tool_calls msg
                  \<and> resolveMocks rt (the (tool_calls msg)) mock = Inr mockResults")
    case False
    from turn_loop_final [where llm = llm and st = st and w = w and calls = calls and seen = seen, OF lt r False]
    obtain res
      where logged: "turn_loop rt (logged llm) maxTurns mock st calls turnCount (w, seen)
                     = (res, (w1, seen @ [r]))"
        and plain: "turn_loop rt llm maxTurns mock st calls turnCount w = (res, w1)"
        and fault: "\<forall>e. fault_of r = Some e \<longrightarrow> (\<exists>st'. res = Inl (e, st'))"
        and kept: "case res of
                     Inl (e, st') \<Rightarrow> stepResults st' = stepResults st
                   | Inr (st', calls', response) \<Rightarrow> stepResults st' = stepResults st"
      by blast
    have "fault_free [r] \<or> (\<exists>e st'. ends_in_fault [r] e \<and> res = Inl (e, st'))"
      using fault by (cases "fault_of r") auto
    with logged plain kept show ?thesis by blast
  next
    case True
    then obtain completion msg others mockResults
      where reply: "r = Inr completion" and first: "choices completion = msg # others"
        and tc: "has_tool_calls msg"
        and res: "resolveMocks rt (the (tool_calls msg)) mock = Inr mockResults"
      by blast
    let ?st = "inject_mocks rt mockResults (the (tool_calls msg))
                 (record_tool_calls rt completion msg
                    (track_tokens completion (st\<lparr>totalTurns := totalTurns st + 1\<rparr>)))"
    let ?calls = "calls @ the (tool_calls msg)"
    from Suc.hyps(2) have n: "n = maxTurns - (turnCount + 1)" by simp
    from Suc.hyps(1) [OF n, of ?st ?calls w1 "seen @ [r]"] obtain res' w' new
      where logged: "turn_loop rt (logged llm) maxTurns mock ?st ?calls (turnCount + 1) (w1, seen @ [r])
                     = (res', (w', (seen @ [r]) @ new))"
        and plain: "turn_loop rt llm maxTurns mock ?st ?calls (turnCount + 1) w1 = (res', w')"
        and shape: "fault_free new \<or> (\<exists>e st'. ends_in_fault new e \<and> res' = Inl (e, st'))"
        and kept: "case res' of
                     Inl (e, st') \<Rightarrow> stepResults st' = stepResults ?st
                   | Inr (st', calls', response) \<Rightarrow> stepResults st' = stepResults ?st"
      by blast
    have clean: "fault_free [r]"
      using reply first by simp
    have l: "turn_loop rt (logged llm) maxTurns mock st calls turnCount (w, seen)
             = (res', (w', seen @ (r # new)))"
      using turn_loop_tool_calls [where llm = "logged llm" and st = st and w = "(w, seen)",
              OF lt lr [unfolded reply] first tc res] logged reply
      by simp
    have p: "turn_loop rt llm maxTurns mock st calls turnCount w = (res', w')"
      using turn_loop_tool_calls [where llm = llm and st = st and w = w, OF lt r [unfolded reply] first tc res]
        plain
      by simp
    have s: "fault_free (r # new) \<or> (\<exists>e st'. ends_in_fault (r # new) e \<and> res' = Inl (e, st'))"
      using shape fault_free_append [of "[r]" new] ends_in_fault_append [OF clean, of new] clean
      by auto
    have k: "case res' of
               Inl (e, st') \<Rightarrow> stepResults st' = stepResults st
             | Inr (st', calls', response) \<Rightarrow> stepResults st' = stepResults st"
      using kept by (auto split: sum.splits)
    from l p s k show ?thesis by blast
  qed
qed

lemma turn_loop_stepResults:
  "(turn_loop rt llm maxTurns mock st calls turnCount w = (Inl (e, st'), w') \<longrightarrow> stepResults st' = stepResults st)
   \<and> (turn_loop rt llm maxTurns mock st calls turnCount w = (Inr (st', calls', response), w')
        \<longrightarrow> stepResults st' = stepResults st)"
proof -
  from turn_loop_log [of rt llm maxTurns mock st calls turnCount w "[]"] obtain res w1
    where plain: "turn_loop rt llm maxTurns mock st calls turnCount w = (res, w1)"
      and kept: "case res of
                   Inl (e, st') \<Rightarrow> stepResults st' = stepResults st
                 | Inr (st', calls', response) \<Rightarrow> stepResults st' = stepResults st"
    by blast
  show ?thesis
  proof (intro conjI impI)
    assume "turn_loop rt llm maxTurns mock st calls turnCount w = (Inl (e, st'), w')"
    with plain have "res = Inl (e, st')" by simp
    with kept show "stepResults st' = stepResults st" by simp
  next
    assume "turn_loop rt llm maxTurns mock st calls turnCount w = (Inr (st', calls', response), w')"
    with plain have "res = Inr (st', calls', response)" by simp
    with kept show "stepResults st' = stepResults st" by simp
  qed
qed










text \<open>A boundary that always answers with tool invocations keeps the loop going to its bound.\<close>

lemma turn_loop_always_tool_calls:
  assumes "answers_with_tool_calls rt llm mock"
  shows "turnCount \<le> maxTurns \<Longrightarrow>
         \<exists>st' w' new.
           turn_loop rt (logged llm) maxTurns mock st calls turnCount (w, seen)
             = (Inr (st', calls @ concat (map invocations new), None), (w', seen @ new))
           \<and> turn_loop rt llm maxTurns mock st calls turnCount w
             = (Inr (st', calls @ concat (map invocations new), None), w')
           \<and> length new = maxTurns - turnCount
           \<and> (\<forall>r \<in> set new. fault_of r = None \<and> invocations r \<noteq> [])
           \<and> totalTurns st' = totalTurns st + (maxTurns - turnCount)"
proof (induction "maxTurns - turnCount" arbitrary: st calls turnCount w seen)
  case 0
  then have ended: "\<not> turnCount < maxTurns" by simp
  have "turn_loop rt (logged llm) maxTurns mock st calls turnCount (w, seen)
          = (Inr (st, calls @ concat (map invocations []), None), (w, seen @ []))
        \<and> turn_loop rt llm maxTurns mock st calls turnCount w
          = (Inr (st, calls @ concat (map invocations []), None), w)"
    by (simp add: turn_loop_exhausted [OF ended])
  with 0 show ?case
    by (intro exI [of _ st] exI [of _ w] exI [of _ "[]"]) simp
next
  case (Suc n)
  then have lt: "turnCount < maxTurns" by simp
  from assms obtain completion msg others w1
    where reply: "llm (messages st) w = (Inr completion, w1)"
      and first: "choices completion = msg # others"
      and tc: "has_tool_calls msg"
      and ok: "\<not> isl (resolveMocks rt (the (tool_calls msg)) mock)"
    unfolding answers_with_tool_calls_def by blast
  from ok obtain mockResults where res: "resolveMocks rt (the (tool_calls msg)) mock = Inr mockResults"
    by (cases "resolveMocks rt (the (tool_calls msg)) mock") simp_all
  note lreply = logged_call [where llm = llm and transcript = "messages st" and w = w and seen = seen, OF reply]
  let ?st = "inject_mocks rt mockResults (the (tool_calls msg))
               (record_tool_calls rt completion msg
                  (track_tokens completion (st\<lparr>totalTurns := totalTurns st + 1\<rparr>)))"
  let ?r = "Inr completion :: reply"
  have inv: "invocations ?r = the (tool_calls msg)" "invocations ?r \<noteq> []" "fault_of ?r = None"
    using first tc by (auto simp: invocations_def has_tool_calls_def split: option.splits)
  from Suc.hyps(2) have n: "n = maxTurns - (turnCount + 1)" by simp
  from lt have le: "turnCount + 1 \<le> maxTurns" by simp
  from Suc.hyps(1) [OF n le, of ?st "calls @ the (tool_calls msg)" w1 "seen @ [?r]"] obtain st' w' new
    where logged: "turn_loop rt (logged llm) maxTurns mock ?st (calls @ the (tool_calls msg)) (turnCount + 1)
                     (w1, seen @ [?r])
                   = (Inr (st', (calls @ the (tool_calls msg)) @ concat (map invocations new), None),
                      (w', (seen @ [?r]) @ new))"
      and plain: "turn_loop rt llm maxTurns mock ?st (calls @ the (tool_calls msg)) (turnCount + 1) w1
                  = (Inr (st', (calls @ the (tool_calls msg)) @ concat (map invocations new), None), w')"
      and len: "length new = maxTurns - (turnCount + 1)"
      and each: "\<forall>r \<in> set new. fault_of r = None \<and> invocations r \<noteq> []"
      and turns: "totalTurns st' = totalTurns ?st + (maxTurns - (turnCount + 1))"
    by blast
  have "turn_loop rt (logged llm) maxTurns mock st calls turnCount (w, seen)
          = (Inr (st', calls @ concat (map invocations (?r # new)), None), (w', seen @ (?r # new)))"
    using turn_loop_tool_calls [where llm = "logged llm" and st = st and w = "(w, seen)",
            OF lt lreply first tc res] logged inv(1)
    by simp
  moreover have "turn_loop rt llm maxTurns mock st calls turnCount w
          = (Inr (st', calls @ concat (map invocations (?r # new)), None), w')"
    using turn_loop_tool_calls [where llm = llm and st = st and w = w, OF lt reply first tc res] plain inv(1)
    by simp
  moreover have "length (?r # new) = maxTurns - turnCount"
    using len lt by simp
  moreover have "\<forall>r \<in> set (?r # new). fault_of r = None \<and> invocations r \<noteq> []"
    using each inv by simp
  moreover have "totalTurns st' = totalTurns st + (maxTurns - turnCount)"
    using turns lt by simp
  ultimately show ?case by blast
qed


section \<open>Claims about the executor\<close>

text \<open>
  C5, as stated: refuted. With a maximum of two turns and a boundary that answers every
  call with the invocation \<^verbatim>\<open>search({})\<close>, a step whose mock table holds the conditional
  rule \<^verbatim>\<open>when: {q: {matches: "("}}\<close> leaves the loop during its first turn with the
  SyntaxError thrown by the mock resolver: the boundary is called once, and the test ends
  with a fault and no step Outcome. With no mock table the loop ends after two calls, but an
  expectation whose tool-call argument check carries the pattern \<^verbatim>\<open>(\<close> throws while the
  step is evaluated: the declared response expectation yields a fault, not a failing
  Outcome.
\<close>

theorem turn_loop_fault_counterexample:
  "executeTest js (logged_boundaries \<lparr>callLLM = always_calls [search_call], fetchPrompt = no_prompt_service\<rparr>)
     (literal_test [asking_step expects_reply (Some unterminated_group_mock)]) two_turns ''weather.test.yaml''
     ((), [])
   = (\<lparr>result_name = ''weather'', result_file = ''weather.test.yaml'', test_passed = False,
       steps = [], globalAssertions = [], totalTokens = 9,
       error = Some ''Invalid regular expression: /(/: Unterminated group''\<rparr>,
      ((), [Inr (tool_reply [search_call])]))
   \<and> executeTest js (logged_boundaries \<lparr>callLLM = always_calls [search_call], fetchPrompt = no_prompt_service\<rparr>)
       (literal_test [asking_step checks_unterminated_group None]) two_turns ''weather.test.yaml''
       ((), [])
     = (\<lparr>result_name = ''weather'', result_file = ''weather.test.yaml'', test_passed = False,
         steps = [], globalAssertions = [], totalTokens = 30,
         error = Some ''Invalid regular expression: /(/: Unterminated group''\<rparr>,
        ((), [Inr (tool_reply [search_call]), Inr (tool_reply [search_call])]))"
proof (intro conjI)
  show "executeTest js (logged_boundaries \<lparr>callLLM = always_calls [search_call], fetchPrompt = no_prompt_service\<rparr>)
     (literal_test [asking_step expects_reply (Some unterminated_group_mock)]) two_turns ''weather.test.yaml''
     ((), [])
   = (\<lparr>result_name = ''weather'', result_file = ''weather.test.yaml'', test_passed = False,
       steps = [], globalAssertions = [], totalTokens = 9,
       error = Some ''Invalid regular expression: /(/: Unterminated group''\<rparr>,
      ((), [Inr (tool_reply [search_call])]))"
    by (simp add: executeTest_def resolveSystemPrompt_def logged_boundaries_def logged_def
        literal_test_def two_turns_def run_step_def
        is_global_step_def asking_step_def push_user_def initial_state_def
        turn_loop.simps always_calls_def always_replies_def tool_reply_def has_tool_calls_def
        search_call_def unterminated_group_mock_def unterminated_group_def
        resolveMocks_def resolve_call_def resolve_response_def parse_args_def resolveMockDefinition_def
        argsMatchCondition_def matchesArgValue_def js_String_def js_Number_def
        Object_prototype_def Object_prototype_methods_def
        track_tokens_def record_tool_calls_def estimateTokens_def error_result_def
        js_simps)
  show "executeTest js (logged_boundaries \<lparr>callLLM = always_calls [search_call], fetchPrompt = no_prompt_service\<rparr>)
       (literal_test [asking_step checks_unterminated_group None]) two_turns ''weather.test.yaml''
       ((), [])
     = (\<lparr>result_name = ''weather'', result_file = ''weather.test.yaml'', test_passed = False,
         steps = [], globalAssertions = [], totalTokens = 30,
         error = Some ''Invalid regular expression: /(/: Unterminated group''\<rparr>,
        ((), [Inr (tool_reply [search_call]), Inr (tool_reply [search_call])]))"
    by (simp add: executeTest_def resolveSystemPrompt_def logged_boundaries_def logged_def
        literal_test_def two_turns_def run_step_def
        is_global_step_def asking_step_def push_user_def initial_state_def
        turn_loop.simps always_calls_def always_replies_def tool_reply_def has_tool_calls_def
        search_call_def
        resolveMocks_def resolve_call_def resolve_response_def parse_args_def encode_content_def
        QuoteJSONString_def escape_char_def inject_mocks_def
        Object_prototype_def Object_prototype_methods_def
        track_tokens_def record_tool_calls_def estimateTokens_def error_result_def
        evaluateStepAssertions_def checks_unterminated_group_def expects_reply_def
        evaluateToolCallAssertion_def checkArgValue_def checkObject_def js_String_def js_Number_def
        ok_def js_simps)
qed

text \<open>
  C5, amended: for every maximum turn count \<open>N\<close> and every model boundary that answers
  every call with tool invocations which the step's mock table resolves without throwing,
  the inner loop of a step issues exactly \<open>N\<close> calls to the boundary (the log of the
  boundary grows by \<open>N\<close> replies, each with tool invocations, and the turn counter of the
  test grows by \<open>N\<close>) and ends without a fault and without a recorded text reply; the tool
  calls of the step are the invocations of these \<open>N\<close> replies. A declared response
  expectation then yields, after the step's tool-call outcomes, the failing Outcome
  "Expected a text response but got none", and the step is recorded as failed; the only
  fault left is one thrown while a tool-call argument check is evaluated.
\<close>

theorem turn_bound_is_silent:
  assumes "answers_with_tool_calls rt llm (step_mock step)"
      and "\<not> is_global_step step"
  shows "\<exists>st' w' new.
           turn_loop rt (logged llm) N (step_mock step) (push_user step st) [] 0 (w, seen)
             = (Inr (st', concat (map invocations new), None), (w', seen @ new))
           \<and> length new = N
           \<and> (\<forall>r \<in> set new. fault_of r = None \<and> invocations r \<noteq> [])
           \<and> turn_loop rt llm N (step_mock step) (push_user step st) [] 0 w
             = (Inr (st', concat (map invocations new), None), w')
           \<and> totalTurns st' = totalTurns st + N
           \<and> (\<forall>e. step_expect step = Some e \<and> se_response e \<noteq> None \<longrightarrow>
                 run_step rt llm N stepIdx step st w
                 = (case tool_outcomes rt e (concat (map invocations new)) of
                      Inl err \<Rightarrow> (Inl (err, st'), w')
                    | Inr results \<Rightarrow>
                        (Inr (st'\<lparr>stepResults := stepResults st'
                                   @ [\<lparr>stepIndex = stepIdx, userMessage = step_user step,
                                       assertions = results @ [fail ''Expected a text response but got none''],
                                       toolCalls = concat (map invocations new), assistantResponse = None,
                                       step_passed = False\<rparr>]\<rparr>), w')))"
proof -
  from turn_loop_always_tool_calls [OF assms(1), of 0 N "push_user step st" "[]" w seen]
  obtain st' w' new
    where logged: "turn_loop rt (logged llm) N (step_mock step) (push_user step st) [] 0 (w, seen)
                   = (Inr (st', concat (map invocations new), None), (w', seen @ new))"
      and plain: "turn_loop rt llm N (step_mock step) (push_user step st) [] 0 w
                  = (Inr (st', concat (map invocations new), None), w')"
      and len: "length new = N"
      and each: "\<forall>r \<in> set new. fault_of r = None \<and> invocations r \<noteq> []"
      and turns: "totalTurns st' = totalTurns st + N"
    by auto
  have "run_step rt llm N stepIdx step st w
        = (case tool_outcomes rt e (concat (map invocations new)) of
             Inl err \<Rightarrow> (Inl (err, st'), w')
           | Inr results \<Rightarrow>
               (Inr (st'\<lparr>stepResults := stepResults st'
                          @ [\<lparr>stepIndex = stepIdx, userMessage = step_user step,
                              assertions = results @ [fail ''Expected a text response but got none''],
                              toolCalls = concat (map invocations new), assistantResponse = None,
                              step_passed = False\<rparr>]\<rparr>), w'))"
    if "step_expect step = Some e" "se_response e \<noteq> None" for e
    using that assms(2) plain
    by (simp add: run_step_def evaluateStepAssertions_tool_outcomes fail_def split: sum.splits)
  with logged plain len each turns show ?thesis by blast
qed

theorem turn_bound_is_silent_witness:
  "answers_with_tool_calls js (always_calls [search_call] :: unit model_boundary)
     (step_mock (asking_step expects_reply None))
   \<and> \<not> is_global_step (asking_step expects_reply None)
   \<and> snd (turn_loop js (logged (always_calls [search_call])) 2 None
            (push_user (asking_step expects_reply None) opened) [] 0 ((), []))
     = ((), [Inr (tool_reply [search_call]), Inr (tool_reply [search_call])])
   \<and> (\<exists>st'. turn_loop js (always_calls [search_call]) 2 None
                 (push_user (asking_step expects_reply None) opened) [] 0 ()
               = (Inr (st', [search_call, search_call], None), ())
             \<and> totalTurns st' = 2
             \<and> run_step js (always_calls [search_call]) 2 0 (asking_step expects_reply None) opened ()
               = (Inr (st'\<lparr>stepResults :=
                            [\<lparr>stepIndex = 0, userMessage = Some ''Weather in Berlin?'',
                              assertions = [fail ''Expected a text response but got none''],
                              toolCalls = [search_call, search_call], assistantResponse = None,
                              step_passed = False\<rparr>]\<rparr>), ()))"
proof -
  let ?llm = "always_calls [search_call] :: unit model_boundary"
  let ?step = "asking_step expects_reply None"
  let ?r = "Inr (tool_reply [search_call]) :: reply"
  have a: "answers_with_tool_calls js ?llm (step_mock ?step)"
    by (simp add: answers_with_tool_calls_def always_calls_def always_replies_def tool_reply_def
          has_tool_calls_def asking_step_def resolveMocks_def resolve_call_def resolve_response_def
          search_call_def)
  have g: "\<not> is_global_step ?step"
    by (simp add: is_global_step_def asking_step_def)
  have e: "step_expect ?step = Some expects_reply \<and> se_response expects_reply \<noteq> None"
    by (simp add: asking_step_def expects_reply_def)
  have t: "tool_outcomes js expects_reply calls = Inr []" for calls
    by (simp add: tool_outcomes_def expects_reply_def)
  have seen: "snd (turn_loop js (logged ?llm) 2 None (push_user ?step opened) [] 0 ((), [])) = ((), [?r, ?r])"
    by (simp add: turn_loop.simps logged_def always_calls_def always_replies_def tool_reply_def
          has_tool_calls_def resolveMocks_def resolve_call_def resolve_response_def search_call_def
          asking_step_def)
  have inv: "invocations ?r = [search_call]"
    by (simp add: invocations_def tool_reply_def)
  from turn_bound_is_silent [OF a g, where N = 2 and st = opened and stepIdx = 0 and w = "()" and seen = "[]"]
  obtain st' w' new
    where logged: "turn_loop js (logged ?llm) 2 (step_mock ?step) (push_user ?step opened) [] 0 ((), [])
                   = (Inr (st', concat (map invocations new), None), (w', [] @ new))"
      and plain: "turn_loop js ?llm 2 (step_mock ?step) (push_user ?step opened) [] 0 ()
                  = (Inr (st', concat (map invocations new), None), w')"
      and turns: "totalTurns st' = totalTurns opened + 2"
      and run: "\<forall>e. step_expect ?step = Some e \<and> se_response e \<noteq> None \<longrightarrow>
                 run_step js ?llm 2 0 ?step opened ()
                 = (case tool_outcomes js e (concat (map invocations new)) of
                      Inl err \<Rightarrow> (Inl (err, st'), w')
                    | Inr results \<Rightarrow>
                        (Inr (st'\<lparr>stepResults := stepResults st'
                                   @ [\<lparr>stepIndex = 0, userMessage = step_user ?step,
                                       assertions = results @ [fail ''Expected a text response but got none''],
                                       toolCalls = concat (map invocations new), assistantResponse = None,
                                       step_passed = False\<rparr>]\<rparr>), w'))"
    by blast
  have mock: "step_mock ?step = None"
    by (simp add: asking_step_def)
  from logged seen have new: "new = [?r, ?r]"
    by (simp add: mock)
  then have calls: "concat (map invocations new) = [search_call, search_call]"
    by (simp add: inv)
  have kept: "stepResults st' = []"
    using turn_loop_stepResults [where rt = js and llm = ?llm and maxTurns = 2 and mock = None
        and st = "push_user ?step opened" and calls = "[]" and turnCount = 0 and w = "()"
        and st' = st' and calls' = "[search_call, search_call]" and response = None and w' = w']
      plain calls
    by (simp add: mock opened_def initial_state_def)
  from plain calls mock
  have p: "turn_loop js ?llm 2 None (push_user ?step opened) [] 0 () = (Inr (st', [search_call, search_call], None), ())"
    by simp
  from turns have tt: "totalTurns st' = 2"
    by (simp add: opened_def initial_state_def)
  from run e t calls kept
  have r: "run_step js ?llm 2 0 ?step opened ()
           = (Inr (st'\<lparr>stepResults :=
                        [\<lparr>stepIndex = 0, userMessage = Some ''Weather in Berlin?'',
                          assertions = [fail ''Expected a text response but got none''],
                          toolCalls = [search_call, search_call], assistantResponse = None,
                          step_passed = False\<rparr>]\<rparr>), ())"
    by (simp add: asking_step_def)
  from a g seen p tt r show ?thesis by blast
qed



text \<open>
  C10, as stated, for any declared response expectation: refuted. The boundary answers the
  first call of the step with the invocation \<^verbatim>\<open>search({})\<close> and the second call with the
  empty text. The expectation declares a response check and checks an argument of the call
  against the pattern \<^verbatim>\<open>(\<close>: the check throws while the step is evaluated, and the test
  ends with a fault and without a step Outcome.
\<close>

theorem empty_text_fault_counterexample:
  "executeTest js \<lparr>callLLM = scripted, fetchPrompt = no_prompt_service\<rparr>
     (literal_test [asking_step checks_unterminated_group None]) two_turns ''weather.test.yaml''
     [Inr (tool_reply [search_call]), Inr (text_reply [])]
   = (\<lparr>result_name = ''weather'', result_file = ''weather.test.yaml'', test_passed = False,
       steps = [], globalAssertions = [], totalTokens = 30,
       error = Some ''Invalid regular expression: /(/: Unterminated group''\<rparr>, [])"
  by (simp add: executeTest_def resolveSystemPrompt_def scripted_def
        literal_test_def two_turns_def run_step_def
        is_global_step_def asking_step_def push_user_def initial_state_def
        turn_loop.simps tool_reply_def text_reply_def has_tool_calls_def
        search_call_def
        resolveMocks_def resolve_call_def resolve_response_def parse_args_def encode_content_def
        QuoteJSONString_def escape_char_def inject_mocks_def
        Object_prototype_def Object_prototype_methods_def
        track_tokens_def record_tool_calls_def estimateTokens_def error_result_def
        evaluateStepAssertions_def checks_unterminated_group_def expects_reply_def
        evaluateToolCallAssertion_def checkArgValue_def checkObject_def js_String_def js_Number_def
        ok_def js_simps)

text \<open>
  C10, amended: a reply without tool invocations whose text is the empty string ends the
  inner loop of the step exactly as a reply with neither invocations nor text does: no
  reply is recorded and the transcript gets no assistant entry. A step that receives such a
  reply as its first is recorded as failed, with the single failing Outcome "Expected a text
  response but got none" after its tool-call outcomes, when a response expectation is
  declared. With no recorded reply, after any tool calls, a declared response expectation
  yields that single failing Outcome after the tool-call outcomes, unless the evaluation of
  the tool-call expectations throws; then the step ends in that fault.
\<close>

theorem empty_text_is_no_reply:
  "(turnCount < maxTurns
    \<and> llm (messages st) w = (Inr completion, w')
    \<and> choices completion = msg # others \<and> \<not> has_tool_calls msg \<and> content msg = Some []
    \<and> llm' (messages st) w = (Inr (completion\<lparr>choices := msg\<lparr>content := None\<rparr> # others\<rparr>), w')
    \<longrightarrow> turn_loop rt llm maxTurns mock st calls turnCount w
        = (Inr (track_tokens completion (st\<lparr>totalTurns := totalTurns st + 1\<rparr>), calls, None), w')
      \<and> messages (track_tokens completion (st\<lparr>totalTurns := totalTurns st + 1\<rparr>)) = messages st
      \<and> turn_loop rt llm' maxTurns mock st calls turnCount w
        = turn_loop rt llm maxTurns mock st calls turnCount w)
   \<and> (\<not> is_global_step step \<and> 0 < maxTurns
    \<and> llm (messages (push_user step st)) w = (Inr completion, w')
    \<and> choices completion = msg # others \<and> \<not> has_tool_calls msg \<and> content msg = Some []
    \<and> step_expect step = Some e \<and> se_response e \<noteq> None
    \<longrightarrow> (\<exists>results.
           tool_outcomes rt e [] = Inr results
           \<and> run_step rt llm maxTurns stepIdx step st w
             = (Inr (track_tokens completion ((push_user step st)\<lparr>totalTurns := totalTurns st + 1\<rparr>)
                       \<lparr>stepResults := stepResults st
                          @ [\<lparr>stepIndex = stepIdx, userMessage = step_user step,
                              assertions = results @ [fail ''Expected a text response but got none''],
                              toolCalls = [], assistantResponse = None, step_passed = False\<rparr>]\<rparr>), w')))
   \<and> (se_response e \<noteq> None \<and> tool_outcomes rt e calls = Inr results
    \<longrightarrow> evaluateStepAssertions rt (Some e) calls None
        = Inr (results @ [fail ''Expected a text response but got none''])
      \<and> evaluateStepAssertions rt (Some e) calls (Some [])
        = Inr (results @ [fail ''Expected a text response but got none'']))
   \<and> (se_response e \<noteq> None \<and> tool_outcomes rt e calls = Inl err
    \<longrightarrow> evaluateStepAssertions rt (Some e) calls None = Inl err)"
proof (intro conjI impI)
  assume h: "turnCount < maxTurns
    \<and> llm (messages st) w = (Inr completion, w')
    \<and> choices completion = msg # others \<and> \<not> has_tool_calls msg \<and> content msg = Some []
    \<and> llm' (messages st) w = (Inr (completion\<lparr>choices := msg\<lparr>content := None\<rparr> # others\<rparr>), w')"
  then have lt: "turnCount < maxTurns"
    and reply: "llm (messages st) w = (Inr completion, w')"
    and first: "choices completion = msg # others"
    and none: "\<not> has_tool_calls msg"
    and empty: "\<not> truthy_str (content msg)"
    by simp_all
  show loop: "turn_loop rt llm maxTurns mock st calls turnCount w
        = (Inr (track_tokens completion (st\<lparr>totalTurns := totalTurns st + 1\<rparr>), calls, None), w')"
    by (rule turn_loop_no_text [where llm = llm and st = st and w = w, OF lt reply first none empty])
  show "messages (track_tokens completion (st\<lparr>totalTurns := totalTurns st + 1\<rparr>)) = messages st"
    by simp
  from h have reply': "llm' (messages st) w
      = (Inr (completion\<lparr>choices := msg\<lparr>content := None\<rparr> # others\<rparr>), w')" by simp
  have first': "choices (completion\<lparr>choices := msg\<lparr>content := None\<rparr> # others\<rparr>)
      = msg\<lparr>content := None\<rparr> # others" by simp
  from none have none': "\<not> has_tool_calls (msg\<lparr>content := None\<rparr>)"
    by (simp add: has_tool_calls_def)
  have empty': "\<not> truthy_str (content (msg\<lparr>content := None\<rparr>))" by simp
  have "turn_loop rt llm' maxTurns mock st calls turnCount w
        = (Inr (track_tokens (completion\<lparr>choices := msg\<lparr>content := None\<rparr> # others\<rparr>)
                  (st\<lparr>totalTurns := totalTurns st + 1\<rparr>), calls, None), w')"
    by (rule turn_loop_no_text [where llm = llm' and st = st and w = w, OF lt reply' first' none' empty'])
  then show "turn_loop rt llm' maxTurns mock st calls turnCount w
             = turn_loop rt llm maxTurns mock st calls turnCount w"
    unfolding loop by (simp add: track_tokens_def)
next
  assume h: "\<not> is_global_step step \<and> 0 < maxTurns
    \<and> llm (messages (push_user step st)) w = (Inr completion, w')
    \<and> choices completion = msg # others \<and> \<not> has_tool_calls msg \<and> content msg = Some []
    \<and> step_expect step = Some e \<and> se_response e \<noteq> None"
  then have lt: "0 < maxTurns"
    and reply: "llm (messages (push_user step st)) w = (Inr completion, w')"
    and first: "choices completion = msg # others"
    and none: "\<not> has_tool_calls msg"
    and empty: "\<not> truthy_str (content msg)"
    by simp_all
  from tool_outcomes_no_calls [of rt e] obtain results where results: "tool_outcomes rt e [] = Inr results"
    by blast
  have "turn_loop rt llm maxTurns (step_mock step) (push_user step st) [] 0 w
        = (Inr (track_tokens completion ((push_user step st)\<lparr>totalTurns := totalTurns (push_user step st) + 1\<rparr>),
                [], None), w')"
    by (rule turn_loop_no_text [where llm = llm and st = "push_user step st" and w = w,
          OF lt reply first none empty])
  with h results
  have "run_step rt llm maxTurns stepIdx step st w
        = (Inr (track_tokens completion ((push_user step st)\<lparr>totalTurns := totalTurns st + 1\<rparr>)
                  \<lparr>stepResults := stepResults st
                     @ [\<lparr>stepIndex = stepIdx, userMessage = step_user step,
                         assertions = results @ [fail ''Expected a text response but got none''],
                         toolCalls = [], assistantResponse = None, step_passed = False\<rparr>]\<rparr>), w')"
    by (simp add: run_step_def evaluateStepAssertions_tool_outcomes fail_def)
  with results show "\<exists>results.
           tool_outcomes rt e [] = Inr results
           \<and> run_step rt llm maxTurns stepIdx step st w
             = (Inr (track_tokens completion ((push_user step st)\<lparr>totalTurns := totalTurns st + 1\<rparr>)
                       \<lparr>stepResults := stepResults st
                          @ [\<lparr>stepIndex = stepIdx, userMessage = step_user step,
                              assertions = results @ [fail ''Expected a text response but got none''],
                              toolCalls = [], assistantResponse = None, step_passed = False\<rparr>]\<rparr>), w')"
    by blast
next
  assume "se_response e \<noteq> None \<and> tool_outcomes rt e calls = Inr results"
  then show "evaluateStepAssertions rt (Some e) calls None
        = Inr (results @ [fail ''Expected a text response but got none''])"
    by (simp add: evaluateStepAssertions_tool_outcomes)
next
  assume "se_response e \<noteq> None \<and> tool_outcomes rt e calls = Inr results"
  then show "evaluateStepAssertions rt (Some e) calls (Some [])
        = Inr (results @ [fail ''Expected a text response but got none''])"
    by (simp add: evaluateStepAssertions_tool_outcomes)
next
  assume "se_response e \<noteq> None \<and> tool_outcomes rt e calls = Inl err"
  then show "evaluateStepAssertions rt (Some e) calls None = Inl err"
    by (simp add: evaluateStepAssertions_tool_outcomes)
qed

theorem empty_text_is_no_reply_witness:
  "turn_loop js (always_replies (text_reply [])) 2 None (push_user (asking_step expects_reply None) opened) [] 0 ()
   = turn_loop js (always_replies no_content_reply) 2 None (push_user (asking_step expects_reply None) opened) [] 0 ()
   \<and> run_step js (always_replies (text_reply [])) 2 0 (asking_step expects_reply None) opened ()
     = (Inr \<lparr>messages = [system_entry ''You are helpful'',
                          \<lparr>role = User, content = Some ''Weather in Berlin?'', tool_calls = None,
                           tool_call_id = None\<rparr>],
             allToolCalls = [],
             stepResults = [\<lparr>stepIndex = 0, userMessage = Some ''Weather in Berlin?'',
                             assertions = [fail ''Expected a text response but got none''],
                             toolCalls = [], assistantResponse = None, step_passed = False\<rparr>],
             totalInputTokens = 9, totalOutputTokens = 0, totalTurns = 1\<rparr>, ())
   \<and> evaluateStepAssertions js (Some expects_reply) [search_call] None
     = Inr [fail ''Expected a text response but got none'']
   \<and> evaluateStepAssertions js (Some expects_reply) [search_call] (Some [])
     = Inr [fail ''Expected a text response but got none'']"
proof -
  let ?step = "asking_step expects_reply None"
  let ?st = "push_user ?step opened"
  let ?msg = "\<lparr>role = Assistant, content = Some [], tool_calls = None, tool_call_id = None\<rparr>"
  let ?llm = "always_replies (text_reply []) :: unit model_boundary"
  let ?llm' = "always_replies no_content_reply :: unit model_boundary"
  have reply: "?llm (messages ?st) () = (Inr (text_reply []), ())"
    by (simp add: always_replies_def)
  have first: "choices (text_reply []) = ?msg # []" "\<not> has_tool_calls ?msg" "content ?msg = Some []"
    by (simp_all add: text_reply_def has_tool_calls_def)
  have reply': "?llm' (messages ?st) () = (Inr ((text_reply [])\<lparr>choices := ?msg\<lparr>content := None\<rparr> # []\<rparr>), ())"
    by (simp add: always_replies_def no_content_reply_def text_reply_def)
  have step: "\<not> is_global_step ?step" "step_expect ?step = Some expects_reply"
    "se_response expects_reply \<noteq> None"
    by (simp_all add: is_global_step_def asking_step_def expects_reply_def)
  have outcomes: "tool_outcomes js expects_reply calls = Inr []" for calls
    by (simp add: tool_outcomes_def expects_reply_def)
  note loop_inst = empty_text_is_no_reply [where llm = ?llm and llm' = ?llm'
      and st = ?st and turnCount = 0 and maxTurns = 2 and completion = "text_reply []" and msg = ?msg
      and others = "[]" and rt = js and mock = None and calls = "[]" and w = "()" and w' = "()"]
  from loop_inst reply first reply'
  have same: "turn_loop js ?llm' 2 None ?st [] 0 () = turn_loop js ?llm 2 None ?st [] 0 ()"
    by simp
  note step_inst = empty_text_is_no_reply [where llm = ?llm and st = opened and maxTurns = 2
      and completion = "text_reply []" and msg = ?msg and others = "[]" and rt = js
      and step = ?step and e = expects_reply and stepIdx = 0 and w = "()" and w' = "()"]
  from step_inst step reply first outcomes
  have "run_step js ?llm 2 0 ?step opened ()
        = (Inr (track_tokens (text_reply []) ((push_user ?step opened)\<lparr>totalTurns := totalTurns opened + 1\<rparr>)
                  \<lparr>stepResults := stepResults opened
                     @ [\<lparr>stepIndex = 0, userMessage = step_user ?step,
                         assertions = [fail ''Expected a text response but got none''],
                         toolCalls = [], assistantResponse = None, step_passed = False\<rparr>]\<rparr>), ())"
    by simp
  then have run: "run_step js ?llm 2 0 ?step opened ()
     = (Inr \<lparr>messages = [system_entry ''You are helpful'',
                          \<lparr>role = User, content = Some ''Weather in Berlin?'', tool_calls = None,
                           tool_call_id = None\<rparr>],
             allToolCalls = [],
             stepResults = [\<lparr>stepIndex = 0, userMessage = Some ''Weather in Berlin?'',
                             assertions = [fail ''Expected a text response but got none''],
                             toolCalls = [], assistantResponse = None, step_passed = False\<rparr>],
             totalInputTokens = 9, totalOutputTokens = 0, totalTurns = 1\<rparr>, ())"
    by (simp add: asking_step_def push_user_def opened_def
          initial_state_def system_entry_def track_tokens_def text_reply_def estimateTokens_def)
  from step_inst [where calls = "[search_call]" and results = "[]"] step outcomes
  have after_calls: "evaluateStepAssertions js (Some expects_reply) [search_call] None
     = Inr [fail ''Expected a text response but got none'']"
    "evaluateStepAssertions js (Some expects_reply) [search_call] (Some [])
     = Inr [fail ''Expected a text response but got none'']"
    by simp_all
  from same run after_calls show ?thesis by simp
qed


end
